theory Spec2Isabelle
  imports Main "HOL-Library.Word"
begin

section \<open>Common types\<close>

type_synonym byte = "8 word"
type_synonym bytes = "byte list"

text \<open>
  Go errors as values. \<open>Errorf\<close> is \<open>fmt.Errorf\<close> with a plain message, \<open>Wrapf\<close> is
  \<open>fmt.Errorf("...: %w", err)\<close>, \<open>ErrorfD\<close> carries the integers formatted with \<open>%d\<close>,
  \<open>Panic\<close> is a run-time panic (nil dereference, slice bounds). What a collaborator
  outside the modelled files returns is an arbitrary value of this type, \<open>Panic\<close> when
  it panics.
\<close>

datatype error = Errorf string | ErrorfD string "int list" | Wrapf string error | Panic string

text \<open>A panic unwinds through the caller; an ordinary error is wrapped with \<open>%w\<close>.\<close>

fun wrap :: "string \<Rightarrow> error \<Rightarrow> error" where
  "wrap msg (Panic m) = Panic m"
| "wrap msg e = Wrapf msg e"

section \<open>Key exchange: kex/rsadh.go\<close>

subsection \<open>math/big values\<close>

text \<open>
  The fields \<open>a, xA, b, xB\<close> are \<open>*big.Int\<close> that the file only ever fills with
  \<open>SetBytes\<close>, so they are non-negative: \<open>nat option\<close>, \<open>None\<close> being the nil pointer.
  \<open>setBytes\<close> is \<open>big.Int.SetBytes\<close> (big-endian unsigned), \<open>bigBytes\<close> is
  \<open>big.Int.Bytes\<close> (big-endian, no leading zero byte, empty for 0), and \<open>bigExp\<close> is
  \<open>big.Int.Exp\<close> for a non-negative exponent: \<open>x ** y\<close> when the modulus is nil or 0
  and the non-negative residue otherwise.
\<close>

definition setBytes :: "bytes \<Rightarrow> nat" where
  "setBytes bs = foldl (\<lambda>acc b. acc * 256 + unat b) 0 bs"

function bigBytes :: "nat \<Rightarrow> bytes" where
  "bigBytes n = (if n = 0 then [] else bigBytes (n div 256) @ [of_nat (n mod 256)])"
  by pat_completeness auto
termination
  by (relation "measure id") auto

declare bigBytes.simps [simp del]

definition bigExp :: "int \<Rightarrow> nat \<Rightarrow> nat option \<Rightarrow> int" where
  "bigExp x y m =
     (case m of
        None \<Rightarrow> x ^ y
      | Some n \<Rightarrow> if n = 0 then x ^ y else (x ^ y) mod int n)"

text \<open>\<open>Bytes\<close> of a possibly negative value returns the bytes of its absolute value.\<close>

definition intBytes :: "int \<Rightarrow> bytes" where
  "intBytes z = bigBytes (nat \<bar>z\<bar>)"

subsection \<open>Session state\<close>

text \<open>
  \<open>CipherSuite\<close> and \<open>SessionCrypter\<close> are declared in another file of package kex; the
  fields below are the ones rsadh.go reads and writes. \<open>RSADHSession\<close> embeds
  \<open>SessionCrypter\<close>. The prime \<open>p\<close> is a \<open>*big.Int\<close> as well: every constructor of the
  file (the suite constructors and \<open>UnmarshalCBOR\<close>) sets it to a non-negative value,
  and it is nil in the zero value of the struct.
\<close>

record CipherSuite =
  EncryptAlg :: int
  MacAlg :: int
  PRFHash :: int

record SessionCrypter =
  ID :: int
  Cipher :: CipherSuite
  SEK :: bytes
  SVK :: bytes

record RSADHSession = SessionCrypter +
  sess_p :: "nat option"
  sess_g :: int
  sess_paramSize :: int
  sess_a :: "nat option"
  sess_xA :: "nat option"
  sess_b :: "nat option"
  sess_xB :: "nat option"

text \<open>
  Collaborators of rsadh.go that live outside it: \<open>CipherSuiteID.Suite\<close>, the
  \<open>KeySize\<close> methods of the encrypt and MAC algorithms (both \<open>uint16\<close>), and \<open>kdf\<close>.
\<close>

record kexDeps =
  Suite :: "int \<Rightarrow> CipherSuite"
  EncryptKeySize :: "int \<Rightarrow> 16 word"
  MacKeySize :: "int \<Rightarrow> 16 word"
  kdf :: "int \<Rightarrow> bytes \<Rightarrow> bytes \<Rightarrow> 16 word \<Rightarrow> error + bytes"

subsection \<open>rsaSymmetricKey\<close>

text \<open>
  A nil base or exponent of \<open>Exp\<close> panics. The size \<open>(sekSize+svkSize)*8\<close> is \<open>uint16\<close> arithmetic.
  \<open>symKey[sekSize:]\<close> panics when \<open>sekSize\<close> exceeds the length of \<open>symKey\<close>.
\<close>

definition rsaSymmetricKey ::
  "kexDeps \<Rightarrow> nat option \<Rightarrow> nat option \<Rightarrow> nat option \<Rightarrow> CipherSuite
     \<Rightarrow> error + (bytes \<times> bytes)" where
  "rsaSymmetricKey d other own p cipher =
     (case other of
        None \<Rightarrow> Inl (Panic ''nil pointer dereference'')
      | Some x \<Rightarrow>
        (case own of
           None \<Rightarrow> Inl (Panic ''nil pointer dereference'')
         | Some y \<Rightarrow>
           (let shSe = intBytes (bigExp (int x) y p);
                sekSize = EncryptKeySize d (EncryptAlg cipher);
                svkSize = (if MacAlg cipher \<noteq> 0 then MacKeySize d (MacAlg cipher) else 0)
            in case kdf d (PRFHash cipher) shSe [] ((sekSize + svkSize) * 8) of
                 Inl e \<Rightarrow> Inl (wrap ''kdf'' e)
               | Inr symKey \<Rightarrow>
                   if length symKey < unat sekSize
                   then Inl (Panic ''slice bounds out of range'')
                   else Inr (take (unat sekSize) symKey, drop (unat sekSize) symKey))))"

subsection \<open>Parameter\<close>

text \<open>
  The reader argument is given by the outcome of its single \<open>Read\<close> call: an error, or
  the bytes it wrote into the buffer \<open>r\<close> of \<open>paramSize\<close> zero bytes (a reader may write
  fewer bytes than the buffer holds; the code ignores the count).
\<close>

definition readInto :: "nat \<Rightarrow> bytes \<Rightarrow> bytes" where
  "readInto n written = take n written @ replicate (n - length written) 0"

definition Parameter ::
  "kexDeps \<Rightarrow> RSADHSession \<Rightarrow> error + bytes \<Rightarrow> (error + bytes) \<times> RSADHSession" where
  "Parameter d s rnd =
     (if sess_paramSize s < 0 then (Inl (Panic ''makeslice: len out of range''), s)
      else case rnd of
        Inl err \<Rightarrow> (Inl err, s)
      | Inr written \<Rightarrow>
        (let r = readInto (nat (sess_paramSize s)) written;
             x = setBytes r;
             xX = bigExp (sess_g s) x (sess_p s)
         in case sess_xA s of
              None \<Rightarrow> (Inr (intBytes xX), s\<lparr>sess_a := Some x\<rparr>)
            | Some _ \<Rightarrow>
              (let s1 = s\<lparr>sess_b := Some x\<rparr>
               in case rsaSymmetricKey d (sess_xA s1) (sess_b s1) (sess_p s1) (Cipher s1) of
                    Inl e \<Rightarrow> (Inl (wrap ''error computing symmetric keys'' e), s1)
                  | Inr (sek, svk) \<Rightarrow> (Inr (intBytes xX), s1\<lparr>SEK := sek, SVK := svk\<rparr>))))"

subsection \<open>SetParameter and its log line\<close>

text \<open>
  \<open>log.Printf("%#v", s)\<close> prints the session in Go syntax. fmt walks the struct by
  reflection: a pointer field below the top level is printed as its address, never as
  the number it points to; integers and byte slices are printed by value; the embedded
  \<open>SessionCrypter\<close> is printed field by field. The verb \<open>%#v\<close> does not call the
  session's \<open>String\<close> method. \<open>goSyntax\<close> is that rendering, with an address
  abstracted to \<open>GoAddr\<close>.
\<close>

datatype goSyntax =
  GoNil | GoAddr | GoInt int | GoBytes bytes | GoStruct "(string \<times> goSyntax) list"

definition ptrSyntax :: "nat option \<Rightarrow> goSyntax" where
  "ptrSyntax v = (case v of None \<Rightarrow> GoNil | Some _ \<Rightarrow> GoAddr)"

definition sharpV :: "RSADHSession \<Rightarrow> goSyntax" where
  "sharpV s = GoStruct
     [(''p'', ptrSyntax (sess_p s)),
      (''g'', GoInt (sess_g s)),
      (''paramSize'', GoInt (sess_paramSize s)),
      (''a'', ptrSyntax (sess_a s)),
      (''xA'', ptrSyntax (sess_xA s)),
      (''b'', ptrSyntax (sess_b s)),
      (''xB'', ptrSyntax (sess_xB s)),
      (''SessionCrypter'', GoStruct
         [(''ID'', GoInt (ID s)),
          (''Cipher'', GoStruct
             [(''EncryptAlg'', GoInt (EncryptAlg (Cipher s))),
              (''MacAlg'', GoInt (MacAlg (Cipher s))),
              (''PRFHash'', GoInt (PRFHash (Cipher s)))]),
          (''SEK'', GoBytes (SEK s)),
          (''SVK'', GoBytes (SVK s))])]"

text \<open>The result is the lines written to the log, the returned error, and the session.\<close>

definition SetParameter ::
  "kexDeps \<Rightarrow> RSADHSession \<Rightarrow> bytes \<Rightarrow> goSyntax list \<times> error option \<times> RSADHSession" where
  "SetParameter d s xBb =
     (let s1 = s\<lparr>sess_xB := Some (setBytes xBb)\<rparr>;
          logged = [sharpV s1]
      in case rsaSymmetricKey d (sess_xB s1) (sess_a s1) (sess_p s1) (Cipher s1) of
           Inl e \<Rightarrow> (logged, Some (wrap ''error computing symmetric keys'' e), s1)
         | Inr (sek, svk) \<Rightarrow> (logged, None, s1\<lparr>SEK := sek, SVK := svk\<rparr>))"

subsection \<open>Persistence\<close>

record rsadhPersist =
  Prime :: bytes
  Generator :: int
  ParamSize :: int
  ParamA :: bytes
  ParamXA :: bytes
  ParamB :: bytes
  ParamXB :: bytes
  PCipher :: int
  PSEK :: bytes
  PSVK :: bytes

text \<open>
  \<open>cbor.Marshal\<close> and \<open>cbor.Unmarshal\<close> belong to package cbor; they are parameters. A
  nil byte slice and an empty one are both the empty list: the code only looks at
  \<open>len\<close> and at the contents.
\<close>

record cborDeps =
  cborMarshal :: "rsadhPersist \<Rightarrow> error + bytes"
  cborUnmarshal :: "bytes \<Rightarrow> error + rsadhPersist"

definition optBytes :: "nat option \<Rightarrow> bytes" where
  "optBytes v = (case v of None \<Rightarrow> [] | Some n \<Rightarrow> bigBytes n)"

text \<open>
  The \<open>persist\<close> structure that \<open>MarshalCBOR\<close> fills in before encoding it, for the
  number \<open>pr\<close> that \<open>s.p\<close> points to. \<open>s.p.Bytes()\<close> on a nil prime panics.
\<close>

definition persistOf :: "nat \<Rightarrow> RSADHSession \<Rightarrow> rsadhPersist" where
  "persistOf pr s =
     \<lparr>Prime = bigBytes pr, Generator = sess_g s, ParamSize = sess_paramSize s,
      ParamA = optBytes (sess_a s), ParamXA = optBytes (sess_xA s),
      ParamB = optBytes (sess_b s), ParamXB = optBytes (sess_xB s),
      PCipher = ID s, PSEK = SEK s, PSVK = SVK s\<rparr>"

definition MarshalCBOR :: "cborDeps \<Rightarrow> RSADHSession \<Rightarrow> error + bytes" where
  "MarshalCBOR c s =
     (case sess_p s of
        None \<Rightarrow> Inl (Panic ''nil pointer dereference'')
      | Some pr \<Rightarrow> cborMarshal c (persistOf pr s))"

definition optParam :: "bytes \<Rightarrow> nat option" where
  "optParam bs = (if length bs > 0 then Some (setBytes bs) else None)"

definition UnmarshalCBOR :: "kexDeps \<Rightarrow> cborDeps \<Rightarrow> bytes \<Rightarrow> error + RSADHSession" where
  "UnmarshalCBOR d c data =
     (case cborUnmarshal c data of
        Inl e \<Rightarrow> Inl e
      | Inr persist \<Rightarrow> Inr
          \<lparr>ID = PCipher persist, Cipher = Suite d (PCipher persist),
           SEK = PSEK persist, SVK = PSVK persist,
           sess_p = Some (setBytes (Prime persist)), sess_g = Generator persist,
           sess_paramSize = ParamSize persist,
           sess_a = optParam (ParamA persist), sess_xA = optParam (ParamXA persist),
           sess_b = optParam (ParamB persist), sess_xB = optParam (ParamXB persist)\<rparr>)"

section \<open>TO2 client: data\<close>

text \<open>
  \<open>Nonce\<close> and \<open>GUID\<close> are \<open>[16]byte\<close> arrays: the 16 bytes packed into a 128-bit word,
  so that Go's array comparison \<open>!=\<close> (all 16 bytes) is inequality of words.
\<close>

type_synonym Nonce = "128 word"
type_synonym GUID = "128 word"

text \<open>TO2 message types, and the type of an error message (255, from the spec).\<close>

definition to2HelloDeviceMsgType :: byte where "to2HelloDeviceMsgType = 60"
definition to2ProveOVHdrMsgType :: byte where "to2ProveOVHdrMsgType = 61"
definition to2GetOVNextEntryMsgType :: byte where "to2GetOVNextEntryMsgType = 62"
definition to2OVNextEntryMsgType :: byte where "to2OVNextEntryMsgType = 63"
definition to2ProveDeviceMsgType :: byte where "to2ProveDeviceMsgType = 64"
definition to2SetupDeviceMsgType :: byte where "to2SetupDeviceMsgType = 65"
definition to2DeviceServiceInfoReadyMsgType :: byte where "to2DeviceServiceInfoReadyMsgType = 66"
definition to2OwnerServiceInfoReadyMsgType :: byte where "to2OwnerServiceInfoReadyMsgType = 67"
definition to2DeviceServiceInfoMsgType :: byte where "to2DeviceServiceInfoMsgType = 68"
definition to2OwnerServiceInfoMsgType :: byte where "to2OwnerServiceInfoMsgType = 69"
definition to2DoneMsgType :: byte where "to2DoneMsgType = 70"
definition to2Done2MsgType :: byte where "to2Done2MsgType = 71"
definition ErrorMsgType :: byte where "ErrorMsgType = 255"

text \<open>COSE claims of the ProveOVHdr unprotected header.\<close>

definition to2NonceClaim :: int where "to2NonceClaim = 256"
definition to2OwnerPubKeyClaim :: int where "to2OwnerPubKeyClaim = 257"

text \<open>
  Types declared in other files of the package, with the fields the spec lists.
  \<open>PublicKey\<close> is the protocol's key structure; \<open>cryptoPublicKey\<close> is the parsed key
  that \<open>PublicKey.Public\<close> returns, whose \<open>Equal\<close> method compares the key type and
  the key's numbers, that is, the values.
\<close>

datatype hashAlg = Sha256Hash | Sha384Hash | HmacSha256Hash | HmacSha384Hash

record Hmac =
  Algorithm :: hashAlg
  Value :: bytes

record PublicKey =
  pk_Type :: int
  pk_Encoding :: int
  pk_Body :: bytes

datatype cryptoPublicKey = RSAPublicKey nat nat | ECDSAPublicKey nat nat nat

record VoucherHeader =
  Version :: "16 word"
  GUID :: GUID
  RvInfo :: "(int \<times> bytes) list list"
  DeviceInfo :: string
  ManufacturerKey :: PublicKey
  CertChainHash :: "Hmac option"

record VoucherEntryPayload =
  ve_PreviousHash :: Hmac
  ve_HeaderHash :: Hmac
  ve_Extra :: bytes
  ve_PublicKey :: PublicKey

text \<open>
  \<open>cose.Sign1Tag[T]\<close>: header maps from label to raw CBOR (association lists, read
  with \<open>map_of\<close>), a payload behind a pointer (\<open>None\<close> is nil) and a signature.
\<close>

record 'a Sign1Tag =
  Protected :: "(int \<times> bytes) list"
  Unprotected :: "(int \<times> bytes) list"
  Payload :: "'a option"
  Signature :: bytes

record Voucher =
  ov_Header :: VoucherHeader
  ov_Hmac :: Hmac
  ov_Entries :: "VoucherEntryPayload Sign1Tag list"

record sigInfo =
  sig_Type :: int
  sig_Info :: bytes

definition ES384Alg :: int where "ES384Alg = -35"

record to2Context =
  ProveDvNonce :: Nonce
  SetupDvNonce :: Nonce
  PublicKey :: PublicKey
  OVH :: VoucherHeader
  OVHHmac :: Hmac
  NumVoucherEntries :: int
  SigInfo :: sigInfo
  KexSuiteName :: string
  KeyExchangeA :: bytes
  MaxDeviceMessageSize :: "16 word"
  MaxOwnerMessageSize :: "16 word"

text \<open>The zero value of \<open>to2Context\<close>, for the fields a composite literal leaves out.\<close>

definition zeroHmac :: Hmac where
  "zeroHmac = \<lparr>Algorithm = Sha256Hash, Value = []\<rparr>"

subsection \<open>Messages\<close>

record helloDeviceMsg =
  hd_MaxDeviceMessageSize :: "16 word"
  hd_GUID :: GUID
  hd_NonceTO2ProveOV :: Nonce
  hd_KexSuiteName :: string
  hd_CipherSuite :: int
  hd_SigInfoA :: sigInfo

record proveOVHdrPayload =
  po_OVH :: VoucherHeader
  po_NumOVEntries :: byte
  po_OVHHmac :: Hmac
  po_NonceTO2ProveOV :: Nonce
  po_SigInfoB :: sigInfo
  po_KeyExchangeA :: bytes
  po_HelloDeviceHash :: Hmac
  po_MaxOwnerMessageSize :: "16 word"

record eatPayload =
  KeyExchangeB :: bytes

text \<open>
  Modelled from the spec: \<open>newEAT\<close> is declared in another file; the token it builds
  holds the GUID, the nonce and the FDO payload it is given.
\<close>

record eatoken =
  eat_GUID :: GUID
  eat_Nonce :: Nonce
  eat_FDO :: eatPayload

definition newEAT :: "GUID \<Rightarrow> Nonce \<Rightarrow> eatPayload \<Rightarrow> eatoken" where
  "newEAT guid nonce fdo = \<lparr>eat_GUID = guid, eat_Nonce = nonce, eat_FDO = fdo\<rparr>"

record setupDevicePayload =
  sd_RendezvousInfo :: "(int \<times> bytes) list list"
  sd_GUID :: GUID
  sd_NonceTO2SetupDv :: Nonce
  sd_Owner2Key :: PublicKey

record deviceServiceInfoReadyMsg =
  rdy_Hmac :: Hmac
  rdy_MaxOwnerServiceInfoSize :: "16 word"

datatype request =
    HelloDeviceReq helloDeviceMsg
  | GetOVNextEntryReq int
  | ProveDeviceReq "eatoken Sign1Tag"
  | DeviceServiceInfoReadyReq deviceServiceInfoReadyMsg
  | DeviceServiceInfoReq bool "(string \<times> bytes) list"
  | DoneReq Nonce

subsection \<open>The client and what it calls\<close>

text \<open>
  The world the driver acts on: the requests handed to the transport so far, in order,
  and the number of calls made to \<open>crypto/rand\<close>. A transport is given by its answer to
  the last request of such a history: an error, or a message type and a body.
\<close>

record world =
  sent :: "(byte \<times> request) list"
  randCalls :: nat

record hmacProvider =
  Supports :: "hashAlg \<Rightarrow> bool"
  HmacOf :: "hashAlg \<Rightarrow> VoucherHeader \<Rightarrow> error + Hmac"

record DeviceCredential =
  cred_GUID :: GUID
  cred_PublicKeyHash :: Hmac

record Client =
  Transport :: "(byte \<times> request) list \<Rightarrow> error + (byte \<times> bytes)"
  Cred :: DeviceCredential
  Hmac :: hmacProvider
  Key :: nat
  PSS :: bool
  MaxServiceInfoSizeReceive :: "16 word"

text \<open>
  The collaborators outside the modelled file: the random source (its k-th 16-byte
  read), the CBOR decoders for each response type, COSE header construction, signing
  and verification, key parsing, the three voucher checks of the voucher model, and one
  round of the service-info exchange (which runs module handlers in a goroutine over
  unbuffered pipes of package serviceinfo).
\<close>

record externals =
  randRead :: "nat \<Rightarrow> error + Nonce"
  decodeErrorMessage :: "bytes \<Rightarrow> error + error"
  decodeProveOVHdr :: "bytes \<Rightarrow> error + proveOVHdrPayload Sign1Tag"
  unmarshalNonce :: "bytes \<Rightarrow> error + Nonce"
  unmarshalPublicKey :: "bytes \<Rightarrow> error + PublicKey"
  Public :: "PublicKey \<Rightarrow> error + cryptoPublicKey"
  Verify :: "proveOVHdrPayload Sign1Tag \<Rightarrow> cryptoPublicKey \<Rightarrow> error + bool"
  decodeOVNextEntry :: "bytes \<Rightarrow> error + (int \<times> VoucherEntryPayload Sign1Tag)"
  VerifyHeader :: "Voucher \<Rightarrow> hmacProvider \<Rightarrow> error option"
  VerifyManufacturerKey :: "Voucher \<Rightarrow> Hmac \<Rightarrow> error option"
  VerifyEntries :: "Voucher \<Rightarrow> error option"
  NewHeader :: "Nonce \<Rightarrow> error + (int \<times> bytes) list \<times> (int \<times> bytes) list"
  signOptsFor :: "nat \<Rightarrow> bool \<Rightarrow> error + int"
  Sign :: "nat \<Rightarrow> eatoken Sign1Tag \<Rightarrow> int \<Rightarrow> error + (int \<times> bytes) list \<times> bytes"
  decodeSetupDevice :: "bytes \<Rightarrow> error + setupDevicePayload Sign1Tag"
  decodeOwnerServiceInfoReady :: "bytes \<Rightarrow> error + (16 word) option"
  exchangeServiceInfoRound :: "nat \<Rightarrow> world \<Rightarrow> (error + bool) \<times> world"
  decodeDone2 :: "bytes \<Rightarrow> error + Nonce"

definition ErrCryptoVerifyFailed :: error where
  "ErrCryptoVerifyFailed = Errorf ''cryptographic verification failed''"

definition Send ::
  "Client \<Rightarrow> byte \<Rightarrow> request \<Rightarrow> world \<Rightarrow> (error + (byte \<times> bytes)) \<times> world" where
  "Send c typ msg w =
     (let w' = w\<lparr>sent := sent w @ [(typ, msg)]\<rparr> in (Transport c (sent w'), w'))"

text \<open>\<open>rand.Read\<close> on a 16-byte array.\<close>

definition readNonce :: "externals \<Rightarrow> world \<Rightarrow> (error + Nonce) \<times> world" where
  "readNonce ext w = (randRead ext (randCalls w), w\<lparr>randCalls := Suc (randCalls w)\<rparr>)"

text \<open>The \<open>ErrorMsgType\<close> and \<open>default\<close> branches that every response switch repeats.\<close>

definition errorResponse :: "externals \<Rightarrow> string \<Rightarrow> string \<Rightarrow> bytes \<Rightarrow> error" where
  "errorResponse ext parseMsg recvMsg resp =
     (case decodeErrorMessage ext resp of
        Inl e \<Rightarrow> wrap parseMsg e
      | Inr errMsg \<Rightarrow> Wrapf recvMsg errMsg)"

section \<open>TO2 client: the driver\<close>

subsection \<open>HelloDevice(60) -> ProveOVHdr(61)\<close>

text \<open>The part of \<open>helloDevice\<close> after the response switch: header claims, signature, nonce.\<close>

definition helloDevice_validate ::
  "externals \<Rightarrow> Nonce \<Rightarrow> helloDeviceMsg \<Rightarrow> proveOVHdrPayload Sign1Tag \<Rightarrow> error + to2Context" where
  "helloDevice_validate ext helloNonce helloDeviceMsg proveOVHdr =
     (case map_of (Unprotected proveOVHdr) to2NonceClaim of
        None \<Rightarrow> Inl (Errorf ''nonce unprotected header missing from TO2.ProveOVHdr response message'')
      | Some cuphNonceBytes \<Rightarrow>
        if length cuphNonceBytes = 0
        then Inl (Errorf ''nonce unprotected header missing from TO2.ProveOVHdr response message'')
        else case unmarshalNonce ext cuphNonceBytes of
          Inl e \<Rightarrow> Inl (wrap ''nonce unprotected header from TO2.ProveOVHdr could not be unmarshaled'' e)
        | Inr cuphNonce \<Rightarrow>
          (case map_of (Unprotected proveOVHdr) to2OwnerPubKeyClaim of
             None \<Rightarrow> Inl (Errorf ''owner pubkey unprotected header missing from TO2.ProveOVHdr response message'')
           | Some ownerPubKeyBytes \<Rightarrow>
             if length ownerPubKeyBytes = 0
             then Inl (Errorf ''owner pubkey unprotected header missing from TO2.ProveOVHdr response message'')
             else case unmarshalPublicKey ext ownerPubKeyBytes of
               Inl e \<Rightarrow> Inl (wrap ''owner pubkey unprotected header from TO2.ProveOVHdr could not be unmarshaled'' e)
             | Inr ownerPubKey \<Rightarrow>
               (case Public ext ownerPubKey of
                  Inl e \<Rightarrow> Inl (wrap ''error parsing owner public key to verify TO2.ProveOVHdr payload signature'' e)
                | Inr key \<Rightarrow>
                  (case Verify ext proveOVHdr key of
                     Inl e \<Rightarrow> Inl (wrap ''error verifying TO2.ProveOVHdr payload signature'' e)
                   | Inr ok \<Rightarrow>
                     if \<not> ok
                     then Inl (Wrapf ''TO2.ProveOVHdr payload signature verification failed''
                                 ErrCryptoVerifyFailed)
                     else case Payload proveOVHdr of
                       None \<Rightarrow> Inl (Panic ''nil pointer dereference'')
                     | Some val \<Rightarrow>
                       if po_NonceTO2ProveOV val \<noteq> helloNonce
                       then Inl (Errorf ''nonce in TO2.ProveOVHdr did not match nonce sent in TO2.HelloDevice'')
                       else Inr
                         \<lparr>ProveDvNonce = cuphNonce,
                          SetupDvNonce = 0,
                          PublicKey = ownerPubKey,
                          OVH = po_OVH val,
                          OVHHmac = po_OVHHmac val,
                          NumVoucherEntries = uint (po_NumOVEntries val),
                          SigInfo = po_SigInfoB val,
                          KexSuiteName = hd_KexSuiteName helloDeviceMsg,
                          KeyExchangeA = po_KeyExchangeA val,
                          MaxDeviceMessageSize = hd_MaxDeviceMessageSize helloDeviceMsg,
                          MaxOwnerMessageSize = po_MaxOwnerMessageSize val\<rparr>))))"

definition helloDevice :: "externals \<Rightarrow> Client \<Rightarrow> world \<Rightarrow> (error + to2Context) \<times> world" where
  "helloDevice ext c w =
     (case readNonce ext w of
        (Inl e, w1) \<Rightarrow> (Inl (wrap ''error generating new nonce for TO2.HelloDevice request'' e), w1)
      | (Inr helloNonce, w1) \<Rightarrow>
        (let helloDeviceMsg =
               \<lparr>hd_MaxDeviceMessageSize = 0,
                hd_GUID = cred_GUID (Cred c),
                hd_NonceTO2ProveOV = helloNonce,
                hd_KexSuiteName = [],
                hd_CipherSuite = 0,
                hd_SigInfoA = \<lparr>sig_Type = ES384Alg, sig_Info = []\<rparr>\<rparr>
         in case Send c to2HelloDeviceMsgType (HelloDeviceReq helloDeviceMsg) w1 of
              (Inl e, w2) \<Rightarrow> (Inl e, w2)
            | (Inr (typ, resp), w2) \<Rightarrow>
              if typ = to2ProveOVHdrMsgType then
                (case decodeProveOVHdr ext resp of
                   Inl e \<Rightarrow> (Inl (wrap ''error parsing TO2.ProveOVHdr contents'' e), w2)
                 | Inr proveOVHdr \<Rightarrow>
                     (helloDevice_validate ext helloNonce helloDeviceMsg proveOVHdr, w2))
              else if typ = ErrorMsgType then
                (Inl (errorResponse ext
                        ''error parsing error message contents of TO2.HelloDevice response''
                        ''error received from TO2.HelloDevice request'' resp), w2)
              else
                (Inl (ErrorfD ''unexpected message type for response to TO2.HelloDevice: %d''
                        [uint typ]), w2)))"

subsection \<open>GetOVNextEntry(62) -> OVNextEntry(63)\<close>

definition nextOVEntry ::
  "externals \<Rightarrow> Client \<Rightarrow> int \<Rightarrow> world \<Rightarrow> (error + VoucherEntryPayload Sign1Tag) \<times> world" where
  "nextOVEntry ext c i w =
     (case Send c to2GetOVNextEntryMsgType (GetOVNextEntryReq i) w of
        (Inl e, w1) \<Rightarrow> (Inl (wrap ''error sending TO2.GetOVNextEntry'' e), w1)
      | (Inr (typ, resp), w1) \<Rightarrow>
        if typ = to2OVNextEntryMsgType then
          (case decodeOVNextEntry ext resp of
             Inl e \<Rightarrow> (Inl (wrap ''error parsing TO2.OVNextEntry contents'' e), w1)
           | Inr (j, ovEntry) \<Rightarrow>
             if j \<noteq> i
             then (Inl (ErrorfD ''TO2.OVNextEntry message contained entry number %d, requested %d''
                          [j, i]), w1)
             else (Inr ovEntry, w1))
        else if typ = ErrorMsgType then
          (Inl (errorResponse ext
                  ''error parsing error message contents of TO2.GetOVNextEntry response''
                  ''error received from TO2.GetOVNextEntry request'' resp), w1)
        else
          (Inl (ErrorfD ''unexpected message type for response to TO2.GetOVNextEntry: %d''
                  [uint typ]), w1))"

subsection \<open>verifyOwner\<close>

text \<open>The loop \<open>for i := 0; i < info.NumVoucherEntries; i++\<close>, started at \<open>i = 0\<close> with no entries.\<close>

function ovEntriesLoop ::
  "externals \<Rightarrow> Client \<Rightarrow> int \<Rightarrow> int \<Rightarrow> VoucherEntryPayload Sign1Tag list \<Rightarrow> world
     \<Rightarrow> (error + VoucherEntryPayload Sign1Tag list) \<times> world" where
  "ovEntriesLoop ext c n i entries w =
     (if i < n then
        (case nextOVEntry ext c i w of
           (Inl e, w1) \<Rightarrow> (Inl e, w1)
         | (Inr entry, w1) \<Rightarrow> ovEntriesLoop ext c n (i + 1) (entries @ [entry]) w1)
      else (Inr entries, w))"
  by pat_completeness auto
termination
  by (relation "measure (\<lambda>(ext, c, n, i, entries, w). nat (n - i))") auto

declare ovEntriesLoop.simps [simp del]

text \<open>The checks of \<open>verifyOwner\<close> once the voucher is assembled.\<close>

definition verifyOwner_voucher ::
  "externals \<Rightarrow> Client \<Rightarrow> to2Context \<Rightarrow> VoucherEntryPayload Sign1Tag list \<Rightarrow> error + to2Context" where
  "verifyOwner_voucher ext c info entries =
     (let ov = \<lparr>ov_Header = OVH info, ov_Hmac = OVHHmac info, ov_Entries = entries\<rparr>
      in case VerifyHeader ext ov (Hmac c) of
           Some e \<Rightarrow> Inl (wrap ''bad ownership voucher header from TO2.ProveOVHdr'' e)
         | None \<Rightarrow>
           (case VerifyManufacturerKey ext ov (cred_PublicKeyHash (Cred c)) of
              Some e \<Rightarrow> Inl (wrap ''bad ownership voucher header from TO2.ProveOVHdr'' e)
            | None \<Rightarrow>
              (case VerifyEntries ext ov of
                 Some e \<Rightarrow> Inl (wrap ''bad ownership voucher entries from TO2.ProveOVHdr'' e)
               | None \<Rightarrow>
                 if ov_Entries ov = [] then Inl (Panic ''index out of range'')
                 else case Payload (last (ov_Entries ov)) of
                   None \<Rightarrow> Inl (Panic ''nil pointer dereference'')
                 | Some val \<Rightarrow>
                   (case Public ext (ve_PublicKey val) of
                      Inl e \<Rightarrow> Inl (wrap ''error parsing last public key of ownership voucher'' e)
                    | Inr expectedOwnerPub \<Rightarrow>
                      (case Public ext (PublicKey info) of
                         Inl e \<Rightarrow> Inl (wrap ''error parsing public key of owner service'' e)
                       | Inr ownerPub \<Rightarrow>
                         if \<not> (ownerPub = expectedOwnerPub)
                         then Inl (Errorf ''owner public key did not match last entry in ownership voucher'')
                         else Inr info)))))"

definition verifyOwner :: "externals \<Rightarrow> Client \<Rightarrow> world \<Rightarrow> (error + to2Context) \<times> world" where
  "verifyOwner ext c w =
     (case helloDevice ext c w of
        (Inl e, w1) \<Rightarrow> (Inl e, w1)
      | (Inr info, w1) \<Rightarrow>
        if NumVoucherEntries info = 0
        then (Inl (Errorf ''ownership voucher cannot have zero entries''), w1)
        else case ovEntriesLoop ext c (NumVoucherEntries info) 0 [] w1 of
          (Inl e, w2) \<Rightarrow> (Inl e, w2)
        | (Inr entries, w2) \<Rightarrow> (verifyOwner_voucher ext c info entries, w2))"

subsection \<open>ProveDevice(64) -> SetupDevice(65)\<close>

text \<open>
  \<open>cose.NewHeader\<close> returns the protected and unprotected maps for the EAT nonce claim;
  \<open>Sign\<close> sets the algorithm in the protected map and the signature of the token.
  \<open>proveDevice\<close> stores the nonce in \<open>info\<close>, so the context is returned as well.
\<close>

definition proveDevice_response ::
  "externals \<Rightarrow> to2Context \<Rightarrow> Nonce \<Rightarrow> byte \<Rightarrow> bytes \<Rightarrow> error + VoucherHeader" where
  "proveDevice_response ext info setupDeviceNonce typ resp =
     (if typ = to2SetupDeviceMsgType then
        (case decodeSetupDevice ext resp of
           Inl e \<Rightarrow> Inl (wrap ''error parsing TO2.SetupDevice contents'' e)
         | Inr setupDevice \<Rightarrow>
           (case Payload setupDevice of
              None \<Rightarrow> Inl (Panic ''nil pointer dereference'')
            | Some val \<Rightarrow>
              if sd_NonceTO2SetupDv val \<noteq> setupDeviceNonce
              then Inl (Errorf ''nonce in TO2.SetupDevice did not match nonce sent in TO2.ProveDevice'')
              else Inr
                \<lparr>Version = Version (OVH info),
                 GUID = sd_GUID val,
                 RvInfo = sd_RendezvousInfo val,
                 DeviceInfo = DeviceInfo (OVH info),
                 ManufacturerKey = sd_Owner2Key val,
                 CertChainHash = CertChainHash (OVH info)\<rparr>))
      else if typ = ErrorMsgType then
        Inl (errorResponse ext
               ''error parsing error message contents of TO2.ProveDevice response''
               ''error received from TO2.ProveDevice request'' resp)
      else
        Inl (ErrorfD ''unexpected message type for response to TO2.ProveDevice: %d'' [uint typ]))"

definition proveDevice ::
  "externals \<Rightarrow> Client \<Rightarrow> to2Context \<Rightarrow> world
     \<Rightarrow> (error + VoucherHeader) \<times> to2Context \<times> world" where
  "proveDevice ext c info w =
     (case readNonce ext w of
        (Inl e, w1) \<Rightarrow>
          (Inl (wrap ''error generating new nonce for TO2.ProveDevice request'' e), info, w1)
      | (Inr setupDeviceNonce, w1) \<Rightarrow>
        (let info1 = info\<lparr>SetupDvNonce := setupDeviceNonce\<rparr>;
             eatPayload = \<lparr>KeyExchangeB = []\<rparr>
         in case NewHeader ext setupDeviceNonce of
              Inl e \<Rightarrow>
                (Inl (wrap ''error creating header for EAT int TO2.ProveDevice'' e), info1, w1)
            | Inr (prot, unprot) \<Rightarrow>
              (let token =
                     \<lparr>Protected = prot, Unprotected = unprot,
                      Payload = Some (newEAT (cred_GUID (Cred c)) (ProveDvNonce info1) eatPayload),
                      Signature = []\<rparr>
               in case signOptsFor ext (Key c) (PSS c) of
                    Inl e \<Rightarrow>
                      (Inl (wrap ''error determining signing options for TO2.ProveDevice'' e),
                       info1, w1)
                  | Inr opts \<Rightarrow>
                    (case Sign ext (Key c) token opts of
                       Inl e \<Rightarrow>
                         (Inl (wrap ''error signing EAT payload for TO2.ProveDevice'' e), info1, w1)
                     | Inr (prot', sig) \<Rightarrow>
                       (let msg = token\<lparr>Protected := prot', Signature := sig\<rparr>
                        in case Send c to2ProveDeviceMsgType (ProveDeviceReq msg) w1 of
                             (Inl e, w2) \<Rightarrow>
                               (Inl (wrap ''error sending TO2.ProveDevice'' e), info1, w2)
                           | (Inr (typ, resp), w2) \<Rightarrow>
                               (proveDevice_response ext info1 setupDeviceNonce typ resp,
                                info1, w2))))))"

subsection \<open>DeviceServiceInfoReady(66) -> OwnerServiceInfoReady(67)\<close>

text \<open>
  Modelled from the spec: \<open>serviceinfo.DefaultMTU\<close> is a constant of package
  serviceinfo; the spec gives the default MTU as 1300 bytes.
\<close>

definition DefaultMTU :: "16 word" where
  "DefaultMTU = 1300"

text \<open>The request structure of \<open>readyServiceInfo\<close> for a computed HMAC.\<close>

definition readyServiceInfo_msg :: "Client \<Rightarrow> Hmac \<Rightarrow> deviceServiceInfoReadyMsg" where
  "readyServiceInfo_msg c replacementHmac =
     (let msg = \<lparr>rdy_Hmac = replacementHmac,
                 rdy_MaxOwnerServiceInfoSize = MaxServiceInfoSizeReceive c\<rparr>
      in if rdy_MaxOwnerServiceInfoSize msg = 0
         then msg\<lparr>rdy_MaxOwnerServiceInfoSize := DefaultMTU\<rparr>
         else msg)"

definition readyServiceInfo_hmac :: "Client \<Rightarrow> VoucherHeader \<Rightarrow> error + Hmac" where
  "readyServiceInfo_hmac c replacementOVH =
     (if Supports (Hmac c) HmacSha384Hash
      then HmacOf (Hmac c) HmacSha384Hash replacementOVH
      else HmacOf (Hmac c) HmacSha256Hash replacementOVH)"

definition readyServiceInfo ::
  "externals \<Rightarrow> Client \<Rightarrow> VoucherHeader \<Rightarrow> world \<Rightarrow> (error + 16 word) \<times> world" where
  "readyServiceInfo ext c replacementOVH w =
     (case readyServiceInfo_hmac c replacementOVH of
        Inl e \<Rightarrow> (Inl (wrap ''error computing HMAC of ownership voucher header'' e), w)
      | Inr replacementHmac \<Rightarrow>
        (case Send c to2DeviceServiceInfoReadyMsgType
                (DeviceServiceInfoReadyReq (readyServiceInfo_msg c replacementHmac)) w of
           (Inl e, w1) \<Rightarrow> (Inl (wrap ''error sending TO2.DeviceServiceInfoReady'' e), w1)
         | (Inr (typ, resp), w1) \<Rightarrow>
           if typ = to2OwnerServiceInfoReadyMsgType then
             (case decodeOwnerServiceInfoReady ext resp of
                Inl e \<Rightarrow> (Inl (wrap ''error parsing TO2.OwnerServiceInfoReady contents'' e), w1)
              | Inr None \<Rightarrow> (Inr DefaultMTU, w1)
              | Inr (Some maxDeviceServiceInfoSize) \<Rightarrow> (Inr maxDeviceServiceInfoSize, w1))
           else if typ = ErrorMsgType then
             (Inl (errorResponse ext
                     ''error parsing error message contents of TO2.OwnerServiceInfoReady response''
                     ''error received from TO2.DeviceServiceInfoReady request'' resp), w1)
           else
             (Inl (ErrorfD ''unexpected message type for response to TO2.DeviceServiceInfoReady: %d''
                     [uint typ]), w1)))"

subsection \<open>Service-info loop, then Done(70) -> Done2(71)\<close>

text \<open>
  The \<open>for\<close> loop of \<open>exchangeServiceInfo\<close> runs rounds until the owner reports done; it
  need not end, so it is a partial function and \<open>None\<close> means that it never returns.
  The round is the collaborator \<open>exchangeServiceInfoRound\<close>, numbered by iteration.
\<close>

partial_function (option) serviceInfoLoop ::
  "externals \<Rightarrow> nat \<Rightarrow> world \<Rightarrow> (error option \<times> world) option" where
  "serviceInfoLoop ext i w =
     (case exchangeServiceInfoRound ext i w of
        (Inl e, w1) \<Rightarrow> Some (Some e, w1)
      | (Inr done, w1) \<Rightarrow> if done then Some (None, w1) else serviceInfoLoop ext (Suc i) w1)"

text \<open>The part of \<open>exchangeServiceInfo\<close> after the loop: send Done and parse the response.\<close>

definition exchangeServiceInfo_done ::
  "externals \<Rightarrow> Client \<Rightarrow> Nonce \<Rightarrow> Nonce \<Rightarrow> world \<Rightarrow> error option \<times> world" where
  "exchangeServiceInfo_done ext c proveDvNonce setupDvNonce w =
     (case Send c to2DoneMsgType (DoneReq proveDvNonce) w of
        (Inl e, w1) \<Rightarrow> (Some (wrap ''error sending TO2.Done'' e), w1)
      | (Inr (typ, resp), w1) \<Rightarrow>
        if typ = to2OVNextEntryMsgType then
          (case decodeDone2 ext resp of
             Inl e \<Rightarrow> (Some (wrap ''error parsing TO2.Done2 contents'' e), w1)
           | Inr done2 \<Rightarrow>
             if done2 \<noteq> setupDvNonce
             then (Some (Errorf ''nonce received in TO2.Done2 message did not match nonce received in TO2.SetupDevice''), w1)
             else (None, w1))
        else if typ = ErrorMsgType then
          (Some (errorResponse ext
                   ''error parsing error message contents of TO2.Done response''
                   ''error received from TO2.Done request'' resp), w1)
        else
          (Some (ErrorfD ''unexpected message type for response to TO2.Done: %d'' [uint typ]), w1))"

definition exchangeServiceInfo ::
  "externals \<Rightarrow> Client \<Rightarrow> Nonce \<Rightarrow> Nonce \<Rightarrow> world \<Rightarrow> (error option \<times> world) option" where
  "exchangeServiceInfo ext c proveDvNonce setupDvNonce w =
     (case serviceInfoLoop ext 0 w of
        None \<Rightarrow> None
      | Some (Some e, w1) \<Rightarrow> Some (Some e, w1)
      | Some (None, w1) \<Rightarrow> Some (exchangeServiceInfo_done ext c proveDvNonce setupDvNonce w1))"

section \<open>Concrete instances\<close>

subsection \<open>A small Diffie-Hellman group and a length-prefixed codec\<close>

definition kd0 :: kexDeps where
  "kd0 = \<lparr>Suite = (\<lambda>i. \<lparr>EncryptAlg = i, MacAlg = 5, PRFHash = -16\<rparr>),
          EncryptKeySize = (\<lambda>_. 2), MacKeySize = (\<lambda>_. 1),
          kdf = (\<lambda>h shSe ctx bits. Inr (shSe @ replicate (unat bits div 8) 7))\<rparr>"

definition toyServer :: RSADHSession where
  "toyServer = \<lparr>ID = 1, Cipher = Suite kd0 1, SEK = [], SVK = [],
     sess_p = Some 23, sess_g = 5, sess_paramSize = 1,
     sess_a = None, sess_xA = None, sess_b = None, sess_xB = None\<rparr>"

definition toyDevice :: RSADHSession where
  "toyDevice = toyServer\<lparr>sess_xA := Some 8\<rparr>"

text \<open>A server session that already holds session keys when \<open>SetParameter\<close> is called.\<close>

definition keyedServer :: RSADHSession where
  "keyedServer = toyServer\<lparr>SEK := [1, 2], SVK := [3], sess_a := Some 6\<rparr>"

text \<open>A device session whose peer parameter is present and zero.\<close>

definition zeroPeer :: RSADHSession where
  "zeroPeer = toyServer\<lparr>sess_xA := Some 0\<rparr>"

text \<open>A device session whose cipher suite is not the suite of its cipher suite id.\<close>

definition oddCipher :: RSADHSession where
  "oddCipher = toyDevice\<lparr>Cipher := \<lparr>EncryptAlg = 1, MacAlg = 0, PRFHash = -16\<rparr>\<rparr>"

text \<open>A session with a nil prime, as in the zero value of the struct.\<close>

definition nilPrime :: RSADHSession where
  "nilPrime = toyServer\<lparr>sess_p := None\<rparr>"

definition putField :: "bytes \<Rightarrow> bytes" where
  "putField bs = of_nat (length bs) # bs"

definition intField :: "int \<Rightarrow> bytes" where
  "intField i = bigBytes (if 0 \<le> i then 2 * nat i else 2 * nat (- i) - 1)"

definition fieldInt :: "bytes \<Rightarrow> int" where
  "fieldInt bs = (let n = setBytes bs in if even n then int (n div 2) else - int ((n + 1) div 2))"

fun getFields :: "nat \<Rightarrow> bytes \<Rightarrow> bytes list option" where
  "getFields 0 bs = (if bs = [] then Some [] else None)"
| "getFields (Suc k) [] = None"
| "getFields (Suc k) (n # rest) =
     (if length rest < unat n then None
      else map_option ((#) (take (unat n) rest)) (getFields k (drop (unat n) rest)))"

definition toyMarshal :: "rsadhPersist \<Rightarrow> error + bytes" where
  "toyMarshal x =
     (let fs = [Prime x, intField (Generator x), intField (ParamSize x), ParamA x, ParamXA x,
                ParamB x, ParamXB x, intField (PCipher x), PSEK x, PSVK x]
      in if list_ex (\<lambda>f. 256 \<le> length f) fs then Inl (Errorf ''field too long'')
         else Inr (concat (map putField fs)))"

definition toyUnmarshal :: "bytes \<Rightarrow> error + rsadhPersist" where
  "toyUnmarshal data =
     (case getFields 10 data of
        Some fs \<Rightarrow> Inr
          \<lparr>Prime = fs ! 0, Generator = fieldInt (fs ! 1), ParamSize = fieldInt (fs ! 2),
           ParamA = fs ! 3, ParamXA = fs ! 4, ParamB = fs ! 5, ParamXB = fs ! 6,
           PCipher = fieldInt (fs ! 7), PSEK = fs ! 8, PSVK = fs ! 9\<rparr>
      | None \<Rightarrow> Inl (Errorf ''malformed input''))"

definition toyCodec :: cborDeps where
  "toyCodec = \<lparr>cborMarshal = toyMarshal, cborUnmarshal = toyUnmarshal\<rparr>"

subsection \<open>A scripted owner service for the TO2 driver\<close>

definition ownerKey :: PublicKey where
  "ownerKey = \<lparr>pk_Type = 11, pk_Encoding = 1, pk_Body = [4, 2]\<rparr>"

definition tailKey :: PublicKey where
  "tailKey = \<lparr>pk_Type = 11, pk_Encoding = 3, pk_Body = [4, 2]\<rparr>"

definition owner2Key :: PublicKey where
  "owner2Key = \<lparr>pk_Type = 11, pk_Encoding = 1, pk_Body = [5, 5]\<rparr>"

definition ovh0 :: VoucherHeader where
  "ovh0 = \<lparr>Version = 101, GUID = 77, RvInfo = [[(5, [1])]], DeviceInfo = ''dev'',
           ManufacturerKey = ownerKey, CertChainHash = None\<rparr>"

definition proveOVHdrPayload0 :: proveOVHdrPayload where
  "proveOVHdrPayload0 =
     \<lparr>po_OVH = ovh0, po_NumOVEntries = 2, po_OVHHmac = zeroHmac,
      po_NonceTO2ProveOV = 1000, po_SigInfoB = \<lparr>sig_Type = ES384Alg, sig_Info = []\<rparr>,
      po_KeyExchangeA = [8], po_HelloDeviceHash = zeroHmac,
      po_MaxOwnerMessageSize = 0\<rparr>"

definition proveOVHdr0 :: "proveOVHdrPayload Sign1Tag" where
  "proveOVHdr0 =
     \<lparr>Protected = [],
      Unprotected = [(to2NonceClaim, [9]), (to2OwnerPubKeyClaim, [8])],
      Payload = Some proveOVHdrPayload0,
      Signature = [1]\<rparr>"

definition entry0 :: "VoucherEntryPayload Sign1Tag" where
  "entry0 =
     \<lparr>Protected = [], Unprotected = [],
      Payload = Some \<lparr>ve_PreviousHash = zeroHmac, ve_HeaderHash = zeroHmac, ve_Extra = [],
                      ve_PublicKey = tailKey\<rparr>,
      Signature = [2]\<rparr>"

definition setupDevice0 :: "setupDevicePayload Sign1Tag" where
  "setupDevice0 =
     \<lparr>Protected = [], Unprotected = [],
      Payload = Some \<lparr>sd_RendezvousInfo = [[(3, [7])]], sd_GUID = 78,
                      sd_NonceTO2SetupDv = 1001, sd_Owner2Key = owner2Key\<rparr>,
      Signature = [3]\<rparr>"

text \<open>The owner answers each request by its kind; \<open>doneTyp\<close> is the type it answers Done with.\<close>

definition scriptedOwner :: "byte \<Rightarrow> (byte \<times> request) list \<Rightarrow> error + (byte \<times> bytes)" where
  "scriptedOwner doneTyp hist =
     (if hist = [] then Inl (Errorf ''no request'')
      else case snd (last hist) of
        HelloDeviceReq m \<Rightarrow> Inr (61, [1])
      | GetOVNextEntryReq i \<Rightarrow> Inr (63, [2, of_int i])
      | ProveDeviceReq t \<Rightarrow> Inr (65, [3])
      | DeviceServiceInfoReadyReq m \<Rightarrow> Inr (67, [4])
      | DeviceServiceInfoReq isMore kvs \<Rightarrow> Inr (69, [6])
      | DoneReq n \<Rightarrow> Inr (doneTyp, [5]))"

definition ext0 :: externals where
  "ext0 =
     \<lparr>randRead = (\<lambda>k. Inr (1000 + of_nat k)),
      decodeErrorMessage = (\<lambda>bs. Inr (Errorf ''remote error'')),
      decodeProveOVHdr = (\<lambda>bs. if bs = [1] then Inr proveOVHdr0 else Inl (Errorf ''cbor'')),
      unmarshalNonce = (\<lambda>bs. Inr (of_nat (setBytes bs))),
      unmarshalPublicKey = (\<lambda>bs. if bs = [8] then Inr ownerKey else Inl (Errorf ''cbor'')),
      Public = (\<lambda>k. Inr (ECDSAPublicKey 384 (setBytes (pk_Body k)) 7)),
      Verify = (\<lambda>t k. Inr True),
      decodeOVNextEntry =
        (\<lambda>bs. case bs of [t, i] \<Rightarrow> Inr (uint i, entry0) | _ \<Rightarrow> Inl (Errorf ''cbor'')),
      VerifyHeader = (\<lambda>ov h. None),
      VerifyManufacturerKey = (\<lambda>ov h. None),
      VerifyEntries = (\<lambda>ov. None),
      NewHeader = (\<lambda>n. Inr ([], [(10, bigBytes (unat n))])),
      signOptsFor = (\<lambda>k pss. Inr 0),
      Sign = (\<lambda>k t opts. Inr ([(1, [35])], [4])),
      decodeSetupDevice = (\<lambda>bs. if bs = [3] then Inr setupDevice0 else Inl (Errorf ''cbor'')),
      decodeOwnerServiceInfoReady = (\<lambda>bs. Inr None),
      exchangeServiceInfoRound =
        (\<lambda>i w. (Inr (1 \<le> i),
                 w\<lparr>sent := sent w @ [(to2DeviceServiceInfoMsgType, DeviceServiceInfoReq False [])]\<rparr>)),
      decodeDone2 = (\<lambda>bs. if bs = [5] then Inr 1001 else Inl (Errorf ''cbor''))\<rparr>"

definition client0 :: "byte \<Rightarrow> Client" where
  "client0 doneTyp =
     \<lparr>Transport = scriptedOwner doneTyp,
      Cred = \<lparr>cred_GUID = 77, cred_PublicKeyHash = zeroHmac\<rparr>,
      Hmac = \<lparr>Supports = (\<lambda>a. a = HmacSha256Hash),
              HmacOf = (\<lambda>a h. Inr \<lparr>Algorithm = a, Value = [6]\<rparr>)\<rparr>,
      Key = 1, PSS = False, MaxServiceInfoSizeReceive = 0\<rparr>"

definition world0 :: world where
  "world0 = \<lparr>sent = [], randCalls = 0\<rparr>"

text \<open>The same owner, reporting a voucher without entries.\<close>

definition zeroEntriesExt :: externals where
  "zeroEntriesExt = ext0
     \<lparr>decodeProveOVHdr :=
        (\<lambda>bs. Inr (proveOVHdr0\<lparr>Payload := Some (proveOVHdrPayload0\<lparr>po_NumOVEntries := 0\<rparr>)\<rparr>))\<rparr>"

text \<open>The states the scripted run passes through.\<close>

definition hello0 :: helloDeviceMsg where
  "hello0 =
     \<lparr>hd_MaxDeviceMessageSize = 0, hd_GUID = 77, hd_NonceTO2ProveOV = 1000,
      hd_KexSuiteName = [], hd_CipherSuite = 0,
      hd_SigInfoA = \<lparr>sig_Type = ES384Alg, sig_Info = []\<rparr>\<rparr>"

definition info0 :: to2Context where
  "info0 =
     \<lparr>ProveDvNonce = 9, SetupDvNonce = 0, PublicKey = ownerKey, OVH = ovh0,
      OVHHmac = zeroHmac, NumVoucherEntries = 2,
      SigInfo = \<lparr>sig_Type = ES384Alg, sig_Info = []\<rparr>, KexSuiteName = [],
      KeyExchangeA = [8], MaxDeviceMessageSize = 0, MaxOwnerMessageSize = 0\<rparr>"

definition worldHello :: world where
  "worldHello = \<lparr>sent = [(60, HelloDeviceReq hello0)], randCalls = 1\<rparr>"

definition worldVerified :: world where
  "worldVerified =
     \<lparr>sent = [(60, HelloDeviceReq hello0), (62, GetOVNextEntryReq 0), (62, GetOVNextEntryReq 1)],
      randCalls = 1\<rparr>"

definition worldDone :: world where
  "worldDone =
     \<lparr>sent = [(68, DeviceServiceInfoReq False []), (68, DeviceServiceInfoReq False []),
              (70, DoneReq 9)],
      randCalls = 0\<rparr>"

definition replacement0 :: VoucherHeader where
  "replacement0 =
     \<lparr>Version = 101, GUID = 78, RvInfo = [[(3, [7])]], DeviceInfo = ''dev'',
      ManufacturerKey = owner2Key, CertChainHash = None\<rparr>"

text \<open>The \<open>KeyExchangeB\<close> field carried by an entry of the request trace, if it has one.\<close>

definition keyExchangeBSent :: "byte \<times> request \<Rightarrow> bytes option" where
  "keyExchangeBSent tr =
     (case snd tr of
        ProveDeviceReq tok \<Rightarrow>
          (case Payload tok of None \<Rightarrow> None | Some eat \<Rightarrow> Some (KeyExchangeB (eat_FDO eat)))
      | _ \<Rightarrow> None)"

section \<open>Facts about the byte encodings\<close>

lemma setBytes_snoc: "setBytes (bs @ [b]) = setBytes bs * 256 + unat b"
  by (simp add: setBytes_def)

lemma setBytes_bigBytes: "setBytes (bigBytes n) = n"
proof (induction n rule: bigBytes.induct)
  case (1 n)
  show ?case
  proof (cases "n = 0")
    case True
    then show ?thesis by (simp add: bigBytes.simps setBytes_def)
  next
    case False
    have "unat (of_nat (n mod 256) :: byte) = n mod 256"
      by (simp add: unat_of_nat)
    with False 1 show ?thesis
      by (subst bigBytes.simps) (simp add: setBytes_snoc)
  qed
qed

lemma bigExp_agree:
  "bigExp (abs (bigExp g x p)) y p = bigExp (abs (bigExp g y p)) x p"
proof (cases "p = None \<or> p = Some 0")
  case True
  then show ?thesis
    by (auto simp: bigExp_def power_abs simp flip: power_mult) (simp_all add: mult.commute)
next
  case False
  then obtain n where n: "p = Some n" "n \<noteq> 0" by auto
  then have "0 \<le> (g ^ x) mod int n" "0 \<le> (g ^ y) mod int n" by simp_all
  with n show ?thesis
    by (simp add: bigExp_def power_mod flip: power_mult) (simp add: mult.commute)
qed

lemma setBytes_intBytes: "setBytes (intBytes z) = nat (abs z)"
  by (simp add: intBytes_def setBytes_bigBytes)

lemma rsaSymmetricKey_agree:
  "rsaSymmetricKey d (Some (setBytes (intBytes (bigExp g x p)))) (Some y) p c =
   rsaSymmetricKey d (Some (setBytes (intBytes (bigExp g y p)))) (Some x) p c"
  by (simp add: rsaSymmetricKey_def setBytes_intBytes bigExp_agree [of g x p y])

lemma bigBytes_eq_Nil: "bigBytes n = [] \<longleftrightarrow> n = 0"
  by (subst bigBytes.simps) simp

lemma optParam_optBytes: "optParam (optBytes v) = (if v = Some 0 then None else v)"
  by (cases v) (simp_all add: optParam_def optBytes_def bigBytes_eq_Nil setBytes_bigBytes)

section \<open>Key exchange: claims\<close>

text \<open>
  C5. Key agreement. A server session without peer parameter generates its parameter
  \<open>xA\<close> with \<open>Parameter\<close>; a device session of the same prime, generator and cipher
  suite, created with that \<open>xA\<close>, generates \<open>xB\<close> with \<open>Parameter\<close> and derives its
  keys. Then \<open>SetParameter\<close> with \<open>xB\<close> succeeds on the server and leaves it with the
  same SEK and SVK as the device, for every prime, generator and pair of random reads.
\<close>

theorem kex_agreement:
  assumes srv: "sess_xA srv = None"
      and pa: "Parameter d srv rA = (Inr xAb, srv1)"
      and dev: "sess_xA dev = Some (setBytes xAb)" "sess_p dev = sess_p srv"
               "sess_g dev = sess_g srv" "Cipher dev = Cipher srv"
      and pb: "Parameter d dev rB = (Inr xBb, dev1)"
  shows "\<exists>lg srv2. SetParameter d srv1 xBb = (lg, None, srv2) \<and>
           SEK srv2 = SEK dev1 \<and> SVK srv2 = SVK dev1"
proof -
  from pa srv obtain wA where
    a: "xAb = intBytes (bigExp (sess_g srv) (setBytes (readInto (nat (sess_paramSize srv)) wA)) (sess_p srv))"
       "srv1 = srv\<lparr>sess_a := Some (setBytes (readInto (nat (sess_paramSize srv)) wA))\<rparr>"
    by (auto simp: Parameter_def Let_def split: if_splits sum.splits)
  define x where "x = setBytes (readInto (nat (sess_paramSize srv)) wA)"
  from pb dev obtain wB sek svk where
    b: "xBb = intBytes (bigExp (sess_g srv) (setBytes (readInto (nat (sess_paramSize dev)) wB)) (sess_p srv))"
       "rsaSymmetricKey d (Some (setBytes xAb)) (Some (setBytes (readInto (nat (sess_paramSize dev)) wB)))
          (sess_p srv) (Cipher srv) = Inr (sek, svk)"
       "SEK dev1 = sek" "SVK dev1 = svk"
    by (auto simp: Parameter_def Let_def split: if_splits sum.splits prod.splits)
  define y where "y = setBytes (readInto (nat (sess_paramSize dev)) wB)"
  have "rsaSymmetricKey d (Some (setBytes xBb)) (Some x) (sess_p srv) (Cipher srv) = Inr (sek, svk)"
    using b(2) unfolding a(1) b(1) x_def [symmetric] y_def [symmetric]
    by (simp add: rsaSymmetricKey_agree [of d "sess_g srv" y "sess_p srv" x])
  then show ?thesis
    using a(2) b(3,4) by (simp add: SetParameter_def Let_def x_def)
qed

theorem kex_agreement_witness:
  "sess_xA toyServer = None \<and>
   Parameter kd0 toyServer (Inr [6]) = (Inr [8], toyServer\<lparr>sess_a := Some 6\<rparr>) \<and>
   sess_xA toyDevice = Some (setBytes [8]) \<and>
   Parameter kd0 toyDevice (Inr [15]) =
     (Inr [19], toyDevice\<lparr>sess_b := Some 15, SEK := [2, 7], SVK := [7, 7]\<rparr>) \<and>
   (\<exists>lg srv2. SetParameter kd0 (toyServer\<lparr>sess_a := Some 6\<rparr>) [19] = (lg, None, srv2) \<and>
      SEK srv2 = [2, 7] \<and> SVK srv2 = [7, 7])"
proof -
  have h1: "sess_xA toyServer = None" by (simp add: toyServer_def)
  have h2: "Parameter kd0 toyServer (Inr [6]) = (Inr [8], toyServer\<lparr>sess_a := Some 6\<rparr>)"
    by code_simp
  have h3: "sess_xA toyDevice = Some (setBytes [8])" by code_simp
  have h4: "sess_p toyDevice = sess_p toyServer" "sess_g toyDevice = sess_g toyServer"
    "Cipher toyDevice = Cipher toyServer" by (simp_all add: toyDevice_def)
  have h5: "Parameter kd0 toyDevice (Inr [15]) =
     (Inr [19], toyDevice\<lparr>sess_b := Some 15, SEK := [2, 7], SVK := [7, 7]\<rparr>)"
    by code_simp
  from kex_agreement [OF h1 h2 h3 h4 h5] h1 h2 h3 h5 show ?thesis by simp
qed

text \<open>
  C9, as amended. For a session whose prime is set and a codec that decodes the encoded
  bytes to the structure it was given, \<open>MarshalCBOR\<close> followed by \<open>UnmarshalCBOR\<close>
  returns a session with the same prime, generator, parameter size, cipher suite id,
  SEK and SVK, the cipher suite recomputed from the cipher suite id, and each of the
  parameters \<open>a, xA, b, xB\<close> unchanged when it is absent or nonzero and absent when it
  is present and zero. When the cipher suite of the session is the suite of its id and
  no present parameter is zero, the session that comes back is the original, and
  \<open>Parameter\<close> and \<open>SetParameter\<close> return on it what they return on the original: the
  same outputs and the same session keys.
\<close>

theorem persist_roundtrip:
  assumes prime: "sess_p s = Some pr"
      and enc: "cborMarshal c (persistOf pr s) = Inr data"
      and dec: "cborUnmarshal c data = Inr (persistOf pr s)"
  shows "MarshalCBOR c s = Inr data \<and>
         UnmarshalCBOR d c data = Inr
           (s\<lparr>Cipher := Suite d (ID s),
              sess_a := (if sess_a s = Some 0 then None else sess_a s),
              sess_xA := (if sess_xA s = Some 0 then None else sess_xA s),
              sess_b := (if sess_b s = Some 0 then None else sess_b s),
              sess_xB := (if sess_xB s = Some 0 then None else sess_xB s)\<rparr>) \<and>
         (Cipher s = Suite d (ID s) \<and> sess_a s \<noteq> Some 0 \<and> sess_xA s \<noteq> Some 0 \<and>
          sess_b s \<noteq> Some 0 \<and> sess_xB s \<noteq> Some 0 \<longrightarrow>
            (case UnmarshalCBOR d c data of
               Inl e \<Rightarrow> False
             | Inr s' \<Rightarrow> s' = s \<and> Parameter d s' rnd = Parameter d s rnd \<and>
                         SetParameter d s' xBb = SetParameter d s xBb))"
proof -
  have m: "MarshalCBOR c s = Inr data"
    using prime enc by (simp add: MarshalCBOR_def)
  have u: "UnmarshalCBOR d c data = Inr
           (s\<lparr>Cipher := Suite d (ID s),
              sess_a := (if sess_a s = Some 0 then None else sess_a s),
              sess_xA := (if sess_xA s = Some 0 then None else sess_xA s),
              sess_b := (if sess_b s = Some 0 then None else sess_b s),
              sess_xB := (if sess_xB s = Some 0 then None else sess_xB s)\<rparr>)"
    using prime dec
    by (simp add: UnmarshalCBOR_def persistOf_def optParam_optBytes setBytes_bigBytes)
  have same: "UnmarshalCBOR d c data = Inr s"
    if "Cipher s = Suite d (ID s)" "sess_a s \<noteq> Some 0" "sess_xA s \<noteq> Some 0"
       "sess_b s \<noteq> Some 0" "sess_xB s \<noteq> Some 0"
    using that u by simp
  have keys: "Cipher s = Suite d (ID s) \<and> sess_a s \<noteq> Some 0 \<and> sess_xA s \<noteq> Some 0 \<and>
          sess_b s \<noteq> Some 0 \<and> sess_xB s \<noteq> Some 0 \<longrightarrow>
            (case UnmarshalCBOR d c data of
               Inl e \<Rightarrow> False
             | Inr s' \<Rightarrow> s' = s \<and> Parameter d s' rnd = Parameter d s rnd \<and>
                         SetParameter d s' xBb = SetParameter d s xBb)"
  proof
    assume "Cipher s = Suite d (ID s) \<and> sess_a s \<noteq> Some 0 \<and> sess_xA s \<noteq> Some 0 \<and>
          sess_b s \<noteq> Some 0 \<and> sess_xB s \<noteq> Some 0"
    then have "UnmarshalCBOR d c data = Inr s" using same by blast
    then show "case UnmarshalCBOR d c data of
               Inl e \<Rightarrow> False
             | Inr s' \<Rightarrow> s' = s \<and> Parameter d s' rnd = Parameter d s rnd \<and>
                         SetParameter d s' xBb = SetParameter d s xBb"
      by simp
  qed
  from m u keys show ?thesis by (intro conjI)
qed

theorem persist_roundtrip_witness:
  "sess_p keyedServer = Some 23 \<and>
   Cipher keyedServer = Suite kd0 (ID keyedServer) \<and>
   MarshalCBOR toyCodec keyedServer = Inr [1, 23, 1, 10, 1, 2, 1, 6, 0, 0, 0, 1, 2, 2, 1, 2, 1, 3] \<and>
   UnmarshalCBOR kd0 toyCodec [1, 23, 1, 10, 1, 2, 1, 6, 0, 0, 0, 1, 2, 2, 1, 2, 1, 3] = Inr keyedServer \<and>
   (case UnmarshalCBOR kd0 toyCodec [1, 23, 1, 10, 1, 2, 1, 6, 0, 0, 0, 1, 2, 2, 1, 2, 1, 3] of
      Inl e \<Rightarrow> False
    | Inr s' \<Rightarrow> s' = keyedServer \<and>
        Parameter kd0 s' (Inr [6]) = Parameter kd0 keyedServer (Inr [6]) \<and>
        SetParameter kd0 s' [19] = SetParameter kd0 keyedServer [19])"
proof -
  let ?data = "[1, 23, 1, 10, 1, 2, 1, 6, 0, 0, 0, 1, 2, 2, 1, 2, 1, 3] :: bytes"
  have prime: "sess_p keyedServer = Some 23"
    by (simp add: keyedServer_def toyServer_def)
  have enc: "cborMarshal toyCodec (persistOf 23 keyedServer) = Inr ?data" by code_simp
  have dec: "cborUnmarshal toyCodec ?data = Inr (persistOf 23 keyedServer)" by code_simp
  have cipher: "Cipher keyedServer = Suite kd0 (ID keyedServer)"
    by (simp add: keyedServer_def toyServer_def)
  have nz: "sess_a keyedServer \<noteq> Some 0" "sess_xA keyedServer \<noteq> Some 0"
    "sess_b keyedServer \<noteq> Some 0" "sess_xB keyedServer \<noteq> Some 0"
    by (simp_all add: keyedServer_def toyServer_def)
  from persist_roundtrip [OF prime enc dec, of kd0 "Inr [6]" "[19]"] cipher nz
  have all: "MarshalCBOR toyCodec keyedServer = Inr ?data \<and>
     (case UnmarshalCBOR kd0 toyCodec ?data of
        Inl e \<Rightarrow> False
      | Inr s' \<Rightarrow> s' = keyedServer \<and>
          Parameter kd0 s' (Inr [6]) = Parameter kd0 keyedServer (Inr [6]) \<and>
          SetParameter kd0 s' [19] = SetParameter kd0 keyedServer [19])"
    by blast
  then have "UnmarshalCBOR kd0 toyCodec ?data = Inr keyedServer"
    by (auto split: sum.splits)
  with all prime cipher show ?thesis by blast
qed

text \<open>
  C9 as stated fails on three kinds of state. A parameter that is present and zero:
  \<open>Bytes\<close> of zero is the empty slice, which \<open>UnmarshalCBOR\<close> takes for an absent
  parameter, so \<open>zeroPeer\<close> with \<open>xA = 0\<close> comes back with \<open>xA\<close> nil. A cipher suite
  that is not the suite of the id: \<open>oddCipher\<close> comes back with the suite of its id,
  and \<open>Parameter\<close> on the same random bytes derives another SVK. A nil prime:
  \<open>MarshalCBOR\<close> panics on \<open>nilPrime\<close> and there is nothing to deserialize.
\<close>

theorem persist_roundtrip_counterexample:
  "sess_xA zeroPeer = Some 0 \<and>
   MarshalCBOR toyCodec zeroPeer = Inr [1, 23, 1, 10, 1, 2, 0, 0, 0, 0, 1, 2, 0, 0] \<and>
   UnmarshalCBOR kd0 toyCodec [1, 23, 1, 10, 1, 2, 0, 0, 0, 0, 1, 2, 0, 0] =
     Inr (zeroPeer\<lparr>sess_xA := None\<rparr>) \<and>
   sess_xA (zeroPeer\<lparr>sess_xA := None\<rparr>) \<noteq> sess_xA zeroPeer \<and>
   MarshalCBOR toyCodec oddCipher = Inr [1, 23, 1, 10, 1, 2, 0, 1, 8, 0, 0, 1, 2, 0, 0] \<and>
   UnmarshalCBOR kd0 toyCodec [1, 23, 1, 10, 1, 2, 0, 1, 8, 0, 0, 1, 2, 0, 0] =
     Inr (oddCipher\<lparr>Cipher := Suite kd0 1\<rparr>) \<and>
   ID (oddCipher\<lparr>Cipher := Suite kd0 1\<rparr>) = ID oddCipher \<and>
   SVK (snd (Parameter kd0 oddCipher (Inr [15]))) = [7] \<and>
   SVK (snd (Parameter kd0 (oddCipher\<lparr>Cipher := Suite kd0 1\<rparr>) (Inr [15]))) = [7, 7] \<and>
   MarshalCBOR toyCodec nilPrime = Inl (Panic ''nil pointer dereference'')"
  by code_simp

text \<open>
  C3. \<open>SetParameter\<close> writes the session to the log before it derives the new keys.
  Called on a session that already holds keys, the log line contains the bytes of
  that SEK and SVK.
\<close>

theorem SetParameter_logs_session_keys:
  "fst (SetParameter kd0 keyedServer [19]) =
     [GoStruct
       [(''p'', GoAddr), (''g'', GoInt 5), (''paramSize'', GoInt 1),
        (''a'', GoAddr), (''xA'', GoNil), (''b'', GoNil), (''xB'', GoAddr),
        (''SessionCrypter'', GoStruct
          [(''ID'', GoInt 1),
           (''Cipher'', GoStruct
              [(''EncryptAlg'', GoInt 1), (''MacAlg'', GoInt 5), (''PRFHash'', GoInt (- 16))]),
           (''SEK'', GoBytes (SEK keyedServer)), (''SVK'', GoBytes (SVK keyedServer))])]] \<and>
   SEK keyedServer = [1, 2] \<and> SVK keyedServer = [3]"
  by code_simp

section \<open>Facts about the driver\<close>

lemma helloDevice_validate_Inr:
  assumes "helloDevice_validate ext helloNonce m hdr = Inr info"
  shows "\<exists>val kb key.
           Payload hdr = Some val \<and> po_NonceTO2ProveOV val = helloNonce \<and>
           map_of (Unprotected hdr) to2OwnerPubKeyClaim = Some kb \<and>
           unmarshalPublicKey ext kb = Inr (PublicKey info) \<and>
           Public ext (PublicKey info) = Inr key \<and> Verify ext hdr key = Inr True \<and>
           NumVoucherEntries info = uint (po_NumOVEntries val) \<and> OVH info = po_OVH val"
  using assms unfolding helloDevice_validate_def
  by (auto split: option.splits sum.splits if_splits)

lemma helloDevice_Inr:
  assumes "helloDevice ext c w = (Inr info, w1)"
  shows "\<exists>helloNonce m body hdr.
           randRead ext (randCalls w) = Inr helloNonce \<and>
           hd_NonceTO2ProveOV m = helloNonce \<and>
           sent w1 = sent w @ [(to2HelloDeviceMsgType, HelloDeviceReq m)] \<and>
           Transport c (sent w1) = Inr (to2ProveOVHdrMsgType, body) \<and>
           decodeProveOVHdr ext body = Inr hdr \<and>
           helloDevice_validate ext helloNonce m hdr = Inr info"
  using assms unfolding helloDevice_def readNonce_def Send_def
  by (auto simp: Let_def split: sum.splits prod.splits if_splits)

lemma helloDevice_sent:
  assumes "helloDevice ext c w = (r, w1)"
  shows "sent w1 = sent w \<or> (\<exists>m. sent w1 = sent w @ [(to2HelloDeviceMsgType, HelloDeviceReq m)])"
  using assms unfolding helloDevice_def readNonce_def Send_def
  by (auto simp: Let_def split: sum.splits prod.splits if_splits)

lemma verifyOwner_voucher_Inr:
  assumes "verifyOwner_voucher ext c info entries = Inr info'"
  shows "info' = info \<and> entries \<noteq> [] \<and>
         (\<exists>val key. Payload (last entries) = Some val \<and>
            Public ext (ve_PublicKey val) = Inr key \<and> Public ext (PublicKey info) = Inr key)"
  using assms unfolding verifyOwner_voucher_def
  by (auto simp: Let_def split: option.splits sum.splits if_splits)

lemma proveDevice_response_Inr:
  assumes "proveDevice_response ext info n typ resp = Inr hdr"
  shows "typ = to2SetupDeviceMsgType \<and>
         (\<exists>sd val. decodeSetupDevice ext resp = Inr sd \<and> Payload sd = Some val \<and>
            sd_NonceTO2SetupDv val = n \<and>
            hdr = \<lparr>Version = Version (OVH info), GUID = sd_GUID val,
                   RvInfo = sd_RendezvousInfo val, DeviceInfo = DeviceInfo (OVH info),
                   ManufacturerKey = sd_Owner2Key val,
                   CertChainHash = CertChainHash (OVH info)\<rparr>)"
  using assms unfolding proveDevice_response_def
  by (auto split: option.splits sum.splits if_splits)

lemma proveDevice_Inr:
  assumes "proveDevice ext c info w = (Inr hdr, info', w')"
  shows "\<exists>n prot tok typ resp.
           randRead ext (randCalls w) = Inr n \<and> info' = info\<lparr>SetupDvNonce := n\<rparr> \<and>
           NewHeader ext n = Inr (prot, Unprotected tok) \<and>
           sent w' = sent w @ [(to2ProveDeviceMsgType, ProveDeviceReq tok)] \<and>
           Transport c (sent w') = Inr (typ, resp) \<and>
           proveDevice_response ext info' n typ resp = Inr hdr"
  using assms unfolding proveDevice_def readNonce_def Send_def
  by (auto simp: Let_def split: sum.splits prod.splits if_splits)

lemma exchangeServiceInfo_done_None:
  assumes "exchangeServiceInfo_done ext c pn sn w = (None, w')"
  shows "sent w' = sent w @ [(to2DoneMsgType, DoneReq pn)] \<and>
         (\<exists>body. Transport c (sent w') = Inr (to2OVNextEntryMsgType, body) \<and>
            decodeDone2 ext body = Inr sn)"
  using assms unfolding exchangeServiceInfo_done_def Send_def
  by (auto simp: Let_def split: sum.splits prod.splits if_splits)

lemma exchangeServiceInfo_None:
  assumes "exchangeServiceInfo ext c pn sn w = Some (None, w')"
  shows "\<exists>w1. serviceInfoLoop ext 0 w = Some (None, w1) \<and>
           exchangeServiceInfo_done ext c pn sn w1 = (None, w')"
  using assms unfolding exchangeServiceInfo_def
  by (auto split: option.splits prod.splits)

lemma serviceInfoLoop_scripted:
  "serviceInfoLoop ext0 0 world0 =
     Some (None, \<lparr>sent = [(68, DeviceServiceInfoReq False []),
                           (68, DeviceServiceInfoReq False [])],
                   randCalls = 0\<rparr>)"
  apply (subst serviceInfoLoop.simps)
  apply (simp add: ext0_def world0_def to2DeviceServiceInfoMsgType_def)
  apply (subst serviceInfoLoop.simps)
  apply (simp add: to2DeviceServiceInfoMsgType_def)
  done

section \<open>TO2 driver: claims\<close>

text \<open>
  C1. Whenever \<open>verifyOwner\<close> returns a context, the owner key of that context is the
  key unmarshaled from claim 257 of the ProveOVHdr unprotected header, the voucher has
  a last entry with a payload, and both keys parse to the same public key. So a run in
  which the two parsed keys differ ends in an error.
\<close>

theorem verifyOwner_owner_key_is_tail_key:
  assumes "verifyOwner ext c w = (Inr info, w')"
  shows "\<exists>w1 body hdr kb entries val key.
           helloDevice ext c w = (Inr info, w1) \<and>
           Transport c (sent w1) = Inr (to2ProveOVHdrMsgType, body) \<and>
           decodeProveOVHdr ext body = Inr hdr \<and>
           map_of (Unprotected hdr) to2OwnerPubKeyClaim = Some kb \<and>
           unmarshalPublicKey ext kb = Inr (PublicKey info) \<and>
           ovEntriesLoop ext c (NumVoucherEntries info) 0 [] w1 = (Inr entries, w') \<and>
           entries \<noteq> [] \<and> Payload (last entries) = Some val \<and>
           Public ext (PublicKey info) = Inr key \<and>
           Public ext (ve_PublicKey val) = Inr key"
proof -
  from assms obtain info1 w1 entries where
    hello: "helloDevice ext c w = (Inr info1, w1)" and
    loop: "ovEntriesLoop ext c (NumVoucherEntries info1) 0 [] w1 = (Inr entries, w')" and
    chk: "verifyOwner_voucher ext c info1 entries = Inr info"
    unfolding verifyOwner_def
    by (auto split: sum.splits prod.splits if_splits)
  from verifyOwner_voucher_Inr [OF chk] obtain val key where
    v: "info = info1" "entries \<noteq> []" "Payload (last entries) = Some val"
       "Public ext (ve_PublicKey val) = Inr key" "Public ext (PublicKey info1) = Inr key"
    by blast
  from helloDevice_Inr [OF hello] obtain helloNonce m body hdr where
    h: "Transport c (sent w1) = Inr (to2ProveOVHdrMsgType, body)"
       "decodeProveOVHdr ext body = Inr hdr"
       "helloDevice_validate ext helloNonce m hdr = Inr info1"
    by blast
  from helloDevice_validate_Inr [OF h(3)] obtain kb where
    k: "map_of (Unprotected hdr) to2OwnerPubKeyClaim = Some kb"
       "unmarshalPublicKey ext kb = Inr (PublicKey info1)"
    by blast
  from hello loop v h(1,2) k show ?thesis by auto
qed

theorem verifyOwner_owner_key_is_tail_key_witness:
  "verifyOwner ext0 (client0 63) world0 = (Inr info0, worldVerified) \<and>
   (\<exists>w1 body hdr kb entries val key.
      helloDevice ext0 (client0 63) world0 = (Inr info0, w1) \<and>
      Transport (client0 63) (sent w1) = Inr (to2ProveOVHdrMsgType, body) \<and>
      decodeProveOVHdr ext0 body = Inr hdr \<and>
      map_of (Unprotected hdr) to2OwnerPubKeyClaim = Some kb \<and>
      unmarshalPublicKey ext0 kb = Inr (PublicKey info0) \<and>
      ovEntriesLoop ext0 (client0 63) (NumVoucherEntries info0) 0 [] w1 =
        (Inr entries, worldVerified) \<and>
      entries \<noteq> [] \<and> Payload (last entries) = Some val \<and>
      Public ext0 (PublicKey info0) = Inr key \<and>
      Public ext0 (ve_PublicKey val) = Inr key)"
proof -
  have run: "verifyOwner ext0 (client0 63) world0 = (Inr info0, worldVerified)"
    by code_simp
  from verifyOwner_owner_key_is_tail_key [OF run] run show ?thesis by simp
qed

text \<open>
  C8. When the ProveOVHdr response that \<open>helloDevice\<close> received decodes to a payload with
  \<open>NumOVEntries = 0\<close>, \<open>verifyOwner\<close> returns an error (that of \<open>helloDevice\<close>, or the
  zero-entries error raised before any voucher is assembled) in the world \<open>helloDevice\<close>
  left: the trace gained at most the HelloDevice request and no GetOVNextEntry request.
\<close>

theorem verifyOwner_zero_entries:
  assumes hello: "helloDevice ext c w = (r, w1)"
      and resp: "Transport c (sent w1) = Inr (typ, body)" "decodeProveOVHdr ext body = Inr hdr"
                "Payload hdr = Some val" "po_NumOVEntries val = 0"
  shows "verifyOwner ext c w =
           (Inl (case r of Inl e \<Rightarrow> e
                 | Inr info \<Rightarrow> Errorf ''ownership voucher cannot have zero entries''), w1) \<and>
         (sent w1 = sent w \<or> (\<exists>m. sent w1 = sent w @ [(to2HelloDeviceMsgType, HelloDeviceReq m)]))"
proof (cases r)
  case (Inl e)
  with hello have "verifyOwner ext c w = (Inl e, w1)" by (simp add: verifyOwner_def)
  with helloDevice_sent [OF hello] Inl show ?thesis by simp
next
  case (Inr info)
  from helloDevice_Inr [OF hello [unfolded Inr]] resp(1,2) obtain helloNonce m where
    "helloDevice_validate ext helloNonce m hdr = Inr info" by auto
  from helloDevice_validate_Inr [OF this] resp(3,4) have "NumVoucherEntries info = 0" by auto
  with hello Inr have "verifyOwner ext c w =
      (Inl (Errorf ''ownership voucher cannot have zero entries''), w1)"
    by (simp add: verifyOwner_def)
  with helloDevice_sent [OF hello] Inr show ?thesis by simp
qed

theorem verifyOwner_zero_entries_witness:
  "helloDevice zeroEntriesExt (client0 63) world0 =
     (Inr (info0\<lparr>NumVoucherEntries := 0\<rparr>), worldHello) \<and>
   verifyOwner zeroEntriesExt (client0 63) world0 =
     (Inl (Errorf ''ownership voucher cannot have zero entries''), worldHello) \<and>
   (sent worldHello = sent world0 \<or>
    (\<exists>m. sent worldHello = sent world0 @ [(to2HelloDeviceMsgType, HelloDeviceReq m)]))"
proof -
  let ?hdr = "proveOVHdr0\<lparr>Payload := Some (proveOVHdrPayload0\<lparr>po_NumOVEntries := 0\<rparr>)\<rparr>"
  have hello: "helloDevice zeroEntriesExt (client0 63) world0 =
      (Inr (info0\<lparr>NumVoucherEntries := 0\<rparr>), worldHello)"
    by code_simp
  have resp: "Transport (client0 63) (sent worldHello) = Inr (61, [1])"
    by code_simp
  have dec: "decodeProveOVHdr zeroEntriesExt [1] = Inr ?hdr"
    by (simp add: zeroEntriesExt_def)
  have pl: "Payload ?hdr = Some (proveOVHdrPayload0\<lparr>po_NumOVEntries := 0\<rparr>)"
    by simp
  have zero: "po_NumOVEntries (proveOVHdrPayload0\<lparr>po_NumOVEntries := 0\<rparr>) = 0"
    by simp
  from verifyOwner_zero_entries [OF hello resp dec pl zero] hello show ?thesis by simp
qed

text \<open>
  C6. The header \<open>proveDevice\<close> returns takes \<open>Version\<close>, \<open>DeviceInfo\<close> and
  \<open>CertChainHash\<close> from the original header in the context and \<open>GUID\<close>, \<open>RvInfo\<close> and
  \<open>ManufacturerKey\<close> from the \<open>GUID\<close>, \<open>RendezvousInfo\<close> and \<open>Owner2Key\<close> of the decoded
  SetupDevice payload, and nothing else.
\<close>

theorem proveDevice_replacement_header:
  assumes "proveDevice ext c info w = (Inr hdr, info', w')"
  shows "\<exists>body sd val.
           Transport c (sent w') = Inr (to2SetupDeviceMsgType, body) \<and>
           decodeSetupDevice ext body = Inr sd \<and> Payload sd = Some val \<and>
           hdr = \<lparr>Version = Version (OVH info), GUID = sd_GUID val,
                  RvInfo = sd_RendezvousInfo val, DeviceInfo = DeviceInfo (OVH info),
                  ManufacturerKey = sd_Owner2Key val,
                  CertChainHash = CertChainHash (OVH info)\<rparr>"
proof -
  from proveDevice_Inr [OF assms] obtain n rtyp resp where
    p: "info' = info\<lparr>SetupDvNonce := n\<rparr>" "Transport c (sent w') = Inr (rtyp, resp)"
       "proveDevice_response ext info' n rtyp resp = Inr hdr"
    by blast
  from proveDevice_response_Inr [OF p(3)] p(1,2) show ?thesis by auto
qed

theorem proveDevice_replacement_header_witness:
  "fst (proveDevice ext0 (client0 63) info0 worldVerified) = Inr replacement0 \<and>
   (\<exists>body sd val.
      Transport (client0 63) (sent (snd (snd (proveDevice ext0 (client0 63) info0 worldVerified))))
        = Inr (to2SetupDeviceMsgType, body) \<and>
      decodeSetupDevice ext0 body = Inr sd \<and> Payload sd = Some val \<and>
      replacement0 = \<lparr>Version = Version (OVH info0), GUID = sd_GUID val,
                       RvInfo = sd_RendezvousInfo val, DeviceInfo = DeviceInfo (OVH info0),
                       ManufacturerKey = sd_Owner2Key val,
                       CertChainHash = CertChainHash (OVH info0)\<rparr>)"
proof -
  let ?run = "proveDevice ext0 (client0 63) info0 worldVerified"
  have res: "fst ?run = Inr replacement0"
    by code_simp
  then have run: "?run = (Inr replacement0, fst (snd ?run), snd (snd ?run))"
    by (metis prod.collapse)
  from proveDevice_replacement_header [OF run] res show ?thesis by simp
qed

text \<open>
  C4, as amended. Every ProveDevice request that \<open>proveDevice\<close> sends carries an EAT
  whose FDO payload has an empty \<open>KeyExchangeB\<close>: the driver does not call the
  key-exchange session.
\<close>

theorem proveDevice_key_exchange_b_empty:
  "sent (snd (snd (proveDevice ext c info w))) = sent w \<or>
   (\<exists>tok eat. sent (snd (snd (proveDevice ext c info w))) =
        sent w @ [(to2ProveDeviceMsgType, ProveDeviceReq tok)] \<and>
      Payload tok = Some eat \<and> eat_FDO eat = \<lparr>KeyExchangeB = []\<rparr>)"
  unfolding proveDevice_def readNonce_def Send_def newEAT_def
  by (auto simp: Let_def split: sum.splits prod.splits if_splits)

text \<open>
  C4 as stated fails: in the scripted run the ProveDevice request, the fourth of the
  trace, carries the empty byte string in \<open>KeyExchangeB\<close>, not a parameter \<open>xB\<close>.
\<close>

theorem proveDevice_key_exchange_b_counterexample:
  "map keyExchangeBSent (sent (snd (snd (proveDevice ext0 (client0 63) info0 worldVerified))))
     = [None, None, None, Some []]"
  by code_simp

text \<open>
  C7. Each of the three nonce checks: when \<open>helloDevice\<close>, \<open>proveDevice\<close> or
  \<open>exchangeServiceInfo\<close> succeeds, the nonce decoded from the response to its request
  equals the nonce sent (the hello nonce of the HelloDevice request, the setup-device
  nonce placed in the EAT header and stored in the context, the setup-device nonce
  given to \<open>exchangeServiceInfo\<close>). A response with another nonce gives an error.
\<close>

theorem driver_accepts_only_echoed_nonces:
  "(helloDevice ext c w = (Inr info, w1) \<longrightarrow>
      (\<exists>m typ body hdr val.
         sent w1 = sent w @ [(to2HelloDeviceMsgType, HelloDeviceReq m)] \<and>
         Transport c (sent w1) = Inr (typ, body) \<and> decodeProveOVHdr ext body = Inr hdr \<and>
         Payload hdr = Some val \<and> po_NonceTO2ProveOV val = hd_NonceTO2ProveOV m)) \<and>
   (proveDevice ext c info2 w2 = (Inr hdr2, info3, w3) \<longrightarrow>
      (\<exists>prot tok typ body sd val.
         sent w3 = sent w2 @ [(to2ProveDeviceMsgType, ProveDeviceReq tok)] \<and>
         NewHeader ext (SetupDvNonce info3) = Inr (prot, Unprotected tok) \<and>
         Transport c (sent w3) = Inr (typ, body) \<and> decodeSetupDevice ext body = Inr sd \<and>
         Payload sd = Some val \<and> sd_NonceTO2SetupDv val = SetupDvNonce info3)) \<and>
   (exchangeServiceInfo ext c proveDvNonce setupDvNonce w4 = Some (None, w5) \<longrightarrow>
      (\<exists>typ body.
         Transport c (sent w5) = Inr (typ, body) \<and> decodeDone2 ext body = Inr setupDvNonce))"
proof (intro conjI impI)
  assume a: "helloDevice ext c w = (Inr info, w1)"
  from helloDevice_Inr [OF a] obtain helloNonce m body hdr where
    h: "hd_NonceTO2ProveOV m = helloNonce"
       "sent w1 = sent w @ [(to2HelloDeviceMsgType, HelloDeviceReq m)]"
       "Transport c (sent w1) = Inr (to2ProveOVHdrMsgType, body)"
       "decodeProveOVHdr ext body = Inr hdr"
       "helloDevice_validate ext helloNonce m hdr = Inr info"
    by blast
  from helloDevice_validate_Inr [OF h(5)] obtain val where
    v: "Payload hdr = Some val" "po_NonceTO2ProveOV val = helloNonce" by blast
  from h(1-4) v
  show "\<exists>m typ body hdr val.
         sent w1 = sent w @ [(to2HelloDeviceMsgType, HelloDeviceReq m)] \<and>
         Transport c (sent w1) = Inr (typ, body) \<and> decodeProveOVHdr ext body = Inr hdr \<and>
         Payload hdr = Some val \<and> po_NonceTO2ProveOV val = hd_NonceTO2ProveOV m"
    by blast
next
  assume a: "proveDevice ext c info2 w2 = (Inr hdr2, info3, w3)"
  from proveDevice_Inr [OF a] obtain n prot tok rtyp resp where
    p: "info3 = info2\<lparr>SetupDvNonce := n\<rparr>"
       "NewHeader ext n = Inr (prot, Unprotected tok)"
       "sent w3 = sent w2 @ [(to2ProveDeviceMsgType, ProveDeviceReq tok)]"
       "Transport c (sent w3) = Inr (rtyp, resp)"
       "proveDevice_response ext info3 n rtyp resp = Inr hdr2"
    by blast
  from p(1) have n: "SetupDvNonce info3 = n" by simp
  from proveDevice_response_Inr [OF p(5)] obtain sd val where
    v: "decodeSetupDevice ext resp = Inr sd" "Payload sd = Some val"
       "sd_NonceTO2SetupDv val = n" by blast
  from p(2-4) n v
  show "\<exists>prot tok typ body sd val.
         sent w3 = sent w2 @ [(to2ProveDeviceMsgType, ProveDeviceReq tok)] \<and>
         NewHeader ext (SetupDvNonce info3) = Inr (prot, Unprotected tok) \<and>
         Transport c (sent w3) = Inr (typ, body) \<and> decodeSetupDevice ext body = Inr sd \<and>
         Payload sd = Some val \<and> sd_NonceTO2SetupDv val = SetupDvNonce info3"
    by blast
next
  assume a: "exchangeServiceInfo ext c proveDvNonce setupDvNonce w4 = Some (None, w5)"
  from exchangeServiceInfo_None [OF a] obtain w' where
    "exchangeServiceInfo_done ext c proveDvNonce setupDvNonce w' = (None, w5)" by blast
  from exchangeServiceInfo_done_None [OF this]
  show "\<exists>typ body.
         Transport c (sent w5) = Inr (typ, body) \<and> decodeDone2 ext body = Inr setupDvNonce"
    by blast
qed

theorem driver_accepts_only_echoed_nonces_witness:
  "helloDevice ext0 (client0 63) world0 = (Inr info0, worldHello) \<and>
   fst (proveDevice ext0 (client0 63) info0 worldVerified) = Inr replacement0 \<and>
   exchangeServiceInfo ext0 (client0 63) 9 1001 world0 = Some (None, worldDone) \<and>
   (\<exists>m typ body hdr val.
      sent worldHello = sent world0 @ [(to2HelloDeviceMsgType, HelloDeviceReq m)] \<and>
      Transport (client0 63) (sent worldHello) = Inr (typ, body) \<and>
      decodeProveOVHdr ext0 body = Inr hdr \<and>
      Payload hdr = Some val \<and> po_NonceTO2ProveOV val = hd_NonceTO2ProveOV m) \<and>
   (\<exists>typ body sd val.
      Transport (client0 63) (sent (snd (snd (proveDevice ext0 (client0 63) info0 worldVerified))))
        = Inr (typ, body) \<and>
      decodeSetupDevice ext0 body = Inr sd \<and> Payload sd = Some val \<and>
      sd_NonceTO2SetupDv val =
        SetupDvNonce (fst (snd (proveDevice ext0 (client0 63) info0 worldVerified)))) \<and>
   (\<exists>typ body.
      Transport (client0 63) (sent worldDone) = Inr (typ, body) \<and>
      decodeDone2 ext0 body = Inr 1001)"
proof -
  let ?run = "proveDevice ext0 (client0 63) info0 worldVerified"
  have hello: "helloDevice ext0 (client0 63) world0 = (Inr info0, worldHello)"
    by code_simp
  have res: "fst ?run = Inr replacement0"
    by code_simp
  then have prove: "?run = (Inr replacement0, fst (snd ?run), snd (snd ?run))"
    by (metis prod.collapse)
  have loop: "exchangeServiceInfo_done ext0 (client0 63) 9 1001
       \<lparr>sent = [(68, DeviceServiceInfoReq False []), (68, DeviceServiceInfoReq False [])],
        randCalls = 0\<rparr> = (None, worldDone)"
    by code_simp
  have fin: "exchangeServiceInfo ext0 (client0 63) 9 1001 world0 = Some (None, worldDone)"
    by (simp add: exchangeServiceInfo_def serviceInfoLoop_scripted loop)
  note all = driver_accepts_only_echoed_nonces
    [where ext = ext0 and c = "client0 63" and w = world0 and info = info0 and ?w1.0 = worldHello
       and ?info2.0 = info0 and ?w2.0 = worldVerified and ?hdr2.0 = replacement0
       and ?info3.0 = "fst (snd ?run)" and ?w3.0 = "snd (snd ?run)"
       and proveDvNonce = 9 and setupDvNonce = 1001 and ?w4.0 = world0 and ?w5.0 = worldDone]
  from all hello prove fin have
    a: "\<exists>m typ body hdr val.
      sent worldHello = sent world0 @ [(to2HelloDeviceMsgType, HelloDeviceReq m)] \<and>
      Transport (client0 63) (sent worldHello) = Inr (typ, body) \<and>
      decodeProveOVHdr ext0 body = Inr hdr \<and>
      Payload hdr = Some val \<and> po_NonceTO2ProveOV val = hd_NonceTO2ProveOV m"
    and b: "\<exists>prot tok typ body sd val.
         sent (snd (snd ?run)) = sent worldVerified @ [(to2ProveDeviceMsgType, ProveDeviceReq tok)] \<and>
         NewHeader ext0 (SetupDvNonce (fst (snd ?run))) = Inr (prot, Unprotected tok) \<and>
         Transport (client0 63) (sent (snd (snd ?run))) = Inr (typ, body) \<and>
         decodeSetupDevice ext0 body = Inr sd \<and>
         Payload sd = Some val \<and> sd_NonceTO2SetupDv val = SetupDvNonce (fst (snd ?run))"
    and c: "\<exists>typ body.
      Transport (client0 63) (sent worldDone) = Inr (typ, body) \<and>
      decodeDone2 ext0 body = Inr 1001"
    by blast+
  from b have b': "\<exists>typ body sd val.
      Transport (client0 63) (sent (snd (snd ?run))) = Inr (typ, body) \<and>
      decodeSetupDevice ext0 body = Inr sd \<and> Payload sd = Some val \<and>
      sd_NonceTO2SetupDv val = SetupDvNonce (fst (snd ?run))"
    by blast
  from hello res fin a b' c show ?thesis by blast
qed

text \<open>
  C10. The DeviceServiceInfoReady request carries \<open>MaxServiceInfoSizeReceive\<close> of the
  client when that is nonzero and \<open>DefaultMTU\<close> otherwise; the field is never zero; and
  the request built this way is the one \<open>readyServiceInfo\<close> sends once the HMAC is
  computed.
\<close>

theorem readyServiceInfo_max_size:
  "rdy_MaxOwnerServiceInfoSize (readyServiceInfo_msg c h) =
     (if MaxServiceInfoSizeReceive c = 0 then DefaultMTU else MaxServiceInfoSizeReceive c) \<and>
   rdy_MaxOwnerServiceInfoSize (readyServiceInfo_msg c h) \<noteq> 0 \<and>
   sent (snd (readyServiceInfo ext c ovh w)) =
     (case readyServiceInfo_hmac c ovh of
        Inl e \<Rightarrow> sent w
      | Inr rh \<Rightarrow> sent w @ [(to2DeviceServiceInfoReadyMsgType,
                              DeviceServiceInfoReadyReq (readyServiceInfo_msg c rh))])"
proof (intro conjI)
  show "rdy_MaxOwnerServiceInfoSize (readyServiceInfo_msg c h) =
     (if MaxServiceInfoSizeReceive c = 0 then DefaultMTU else MaxServiceInfoSizeReceive c)"
    by (simp add: readyServiceInfo_msg_def Let_def)
  show "rdy_MaxOwnerServiceInfoSize (readyServiceInfo_msg c h) \<noteq> 0"
    by (simp add: readyServiceInfo_msg_def Let_def DefaultMTU_def)
  show "sent (snd (readyServiceInfo ext c ovh w)) =
     (case readyServiceInfo_hmac c ovh of
        Inl e \<Rightarrow> sent w
      | Inr rh \<Rightarrow> sent w @ [(to2DeviceServiceInfoReadyMsgType,
                              DeviceServiceInfoReadyReq (readyServiceInfo_msg c rh))])"
    unfolding readyServiceInfo_def Send_def
    by (auto simp: Let_def split: sum.splits prod.splits option.splits if_splits)
qed

text \<open>
  C2. The response switch after Done tests for \<open>to2OVNextEntryMsgType\<close> (63). An owner
  that answers Done with message type 71 and the right nonce is refused with the
  unexpected-message-type error, and the same answer under type 63 is accepted.
\<close>

theorem done2_message_type_71_rejected:
  "exchangeServiceInfo ext0 (client0 71) 9 1001 world0 =
     Some (Some (ErrorfD ''unexpected message type for response to TO2.Done: %d'' [71]),
           worldDone) \<and>
   exchangeServiceInfo ext0 (client0 63) 9 1001 world0 = Some (None, worldDone)"
proof -
  let ?w = "\<lparr>sent = [(68, DeviceServiceInfoReq False []), (68, DeviceServiceInfoReq False [])],
             randCalls = 0\<rparr>"
  have a: "exchangeServiceInfo_done ext0 (client0 71) 9 1001 ?w =
     (Some (ErrorfD ''unexpected message type for response to TO2.Done: %d'' [71]), worldDone)"
    by code_simp
  have b: "exchangeServiceInfo_done ext0 (client0 63) 9 1001 ?w = (None, worldDone)"
    by code_simp
  from a b show ?thesis
    by (simp add: exchangeServiceInfo_def serviceInfoLoop_scripted)
qed

end
